theory Spec2Isabelle
  imports Complex_Main "HOL-Library.Log_Nat"
begin

section \<open>Python numbers\<close>

text \<open>
  \<^verbatim>\<open>src/main.py\<close> walks the tree that \<^verbatim>\<open>ast.parse\<close> returns and applies Python's own
  arithmetic operators to Python's own numbers. The values that reach \<^verbatim>\<open>_eval_node\<close> are
  \<^verbatim>\<open>int\<close> (unbounded), \<^verbatim>\<open>bool\<close> (a subclass of \<^verbatim>\<open>int\<close>), \<^verbatim>\<open>float\<close> (IEEE 754 binary64)
  and \<^verbatim>\<open>complex\<close> (a pair of floats, which \<^verbatim>\<open>**\<close> produces from a negative base and a
  fractional exponent). The operators, and the texts of the exceptions they raise, are
  modelled as CPython 3.11 implements them (\<^verbatim>\<open>longobject.c\<close>, \<^verbatim>\<open>floatobject.c\<close>,
  \<^verbatim>\<open>complexobject.c\<close>); the module runs as written on the releases that still have
  \<^verbatim>\<open>ast.Num\<close> (up to 3.13).
\<close>

subsection \<open>Floats\<close>

text \<open>
  A double is a finite value (a rational; \<open>Finite 0\<close> is \<open>+0.0\<close>), the negative zero, an
  infinity or a NaN. The sign and payload of a NaN are not modelled.
\<close>

datatype pyfloat = Finite rat | NegZero | PosInf | NegInf | NaN

fun bit_length :: "nat \<Rightarrow> nat" where
  "bit_length n = (if n = 0 then 0 else Suc (bit_length (n div 2)))"

declare bit_length.simps [simp del]

text \<open>\<open>ilog2 q\<close> is the exponent \<open>e\<close> with \<open>2\<^sup>e \<le> \<bar>q\<bar> < 2\<^sup>e\<^sup>+\<^sup>1\<close>, for \<open>q \<noteq> 0\<close>.\<close>

definition ilog2 :: "rat \<Rightarrow> int" where
  "ilog2 q =
     (let a = \<bar>q\<bar> in
      if 1 \<le> a then int (bit_length (nat \<lfloor>a\<rfloor>)) - 1
      else - int (bit_length (nat (\<lceil>1 / a\<rceil> - 1))))"

definition round_half_even :: "rat \<Rightarrow> int" where
  "round_half_even x =
     (let f = \<lfloor>x\<rfloor>; d = x - of_int f in
      if d < 1 / 2 then f
      else if 1 / 2 < d then f + 1
      else if even f then f else f + 1)"

text \<open>
  Rounding of an exact result to the nearest double, ties to even: 53 significant bits,
  exponents from -1022 (below that the spacing stays \<open>2\<^sup>-\<^sup>1\<^sup>0\<^sup>7\<^sup>4\<close>), overflow to an
  infinity, and a result that rounds to zero keeps the sign of the exact value.
\<close>

definition round64 :: "rat \<Rightarrow> pyfloat" where
  "round64 q =
     (if q = 0 then Finite 0
      else
        let e = max (ilog2 q) (- 1022);
            u = 2 powi (e - 52);
            r = of_int (round_half_even (q / u)) * u
        in if 2 ^ 1024 \<le> \<bar>r\<bar> then (if 0 < q then PosInf else NegInf)
           else if r = 0 then (if 0 < q then Finite 0 else NegZero)
           else Finite r)"

text \<open>The sign bit: set for negative values, \<open>-0.0\<close> and \<open>-inf\<close>.\<close>

fun sign_bit :: "pyfloat \<Rightarrow> bool" where
  "sign_bit (Finite q) = (q < 0)"
| "sign_bit NegZero = True"
| "sign_bit NegInf = True"
| "sign_bit PosInf = False"
| "sign_bit NaN = False"

fun is_zero :: "pyfloat \<Rightarrow> bool" where
  "is_zero (Finite q) = (q = 0)"
| "is_zero NegZero = True"
| "is_zero _ = False"

fun is_inf :: "pyfloat \<Rightarrow> bool" where
  "is_inf PosInf = True"
| "is_inf NegInf = True"
| "is_inf _ = False"

fun is_nan :: "pyfloat \<Rightarrow> bool" where
  "is_nan NaN = True"
| "is_nan _ = False"

text \<open>The rational value of a finite double (both zeros are 0).\<close>

fun fin_val :: "pyfloat \<Rightarrow> rat option" where
  "fin_val (Finite q) = Some q"
| "fin_val NegZero = Some 0"
| "fin_val _ = None"

definition signed_zero :: "bool \<Rightarrow> pyfloat" where
  "signed_zero neg = (if neg then NegZero else Finite 0)"

definition signed_inf :: "bool \<Rightarrow> pyfloat" where
  "signed_inf neg = (if neg then NegInf else PosInf)"

fun fl_neg :: "pyfloat \<Rightarrow> pyfloat" where
  "fl_neg (Finite q) = (if q = 0 then NegZero else Finite (- q))"
| "fl_neg NegZero = Finite 0"
| "fl_neg PosInf = NegInf"
| "fl_neg NegInf = PosInf"
| "fl_neg NaN = NaN"

definition fl_abs :: "pyfloat \<Rightarrow> pyfloat" where
  "fl_abs x = (if sign_bit x then fl_neg x else x)"

text \<open>C's \<^verbatim>\<open>==\<close> and \<^verbatim>\<open><\<close> on doubles: the zeros are equal, a NaN compares false.\<close>

fun fl_eq :: "pyfloat \<Rightarrow> pyfloat \<Rightarrow> bool" where
  "fl_eq NaN _ = False"
| "fl_eq _ NaN = False"
| "fl_eq PosInf y = (y = PosInf)"
| "fl_eq NegInf y = (y = NegInf)"
| "fl_eq x PosInf = False"
| "fl_eq x NegInf = False"
| "fl_eq x y = (fin_val x = fin_val y)"

fun fl_less :: "pyfloat \<Rightarrow> pyfloat \<Rightarrow> bool" where
  "fl_less NaN _ = False"
| "fl_less _ NaN = False"
| "fl_less PosInf _ = False"
| "fl_less _ NegInf = False"
| "fl_less NegInf _ = True"
| "fl_less _ PosInf = True"
| "fl_less x y = (the (fin_val x) < the (fin_val y))"

text \<open>IEEE addition, multiplication and division, round to nearest.\<close>

definition fl_add :: "pyfloat \<Rightarrow> pyfloat \<Rightarrow> pyfloat" where
  "fl_add x y =
     (if is_nan x \<or> is_nan y then NaN
      else if is_inf x then (if is_inf y \<and> sign_bit x \<noteq> sign_bit y then NaN else x)
      else if is_inf y then y
      else if is_zero x \<and> is_zero y then signed_zero (sign_bit x \<and> sign_bit y)
      else if is_zero x then y
      else if is_zero y then x
      else round64 (the (fin_val x) + the (fin_val y)))"

definition fl_sub :: "pyfloat \<Rightarrow> pyfloat \<Rightarrow> pyfloat" where
  "fl_sub x y = fl_add x (fl_neg y)"

definition fl_mul :: "pyfloat \<Rightarrow> pyfloat \<Rightarrow> pyfloat" where
  "fl_mul x y =
     (if is_nan x \<or> is_nan y then NaN
      else if is_inf x \<or> is_inf y then
        (if is_zero x \<or> is_zero y then NaN else signed_inf (sign_bit x \<noteq> sign_bit y))
      else if is_zero x \<or> is_zero y then signed_zero (sign_bit x \<noteq> sign_bit y)
      else round64 (the (fin_val x) * the (fin_val y)))"

definition fl_div :: "pyfloat \<Rightarrow> pyfloat \<Rightarrow> pyfloat" where
  "fl_div x y =
     (if is_nan x \<or> is_nan y then NaN
      else if is_inf x then (if is_inf y then NaN else signed_inf (sign_bit x \<noteq> sign_bit y))
      else if is_inf y then signed_zero (sign_bit x \<noteq> sign_bit y)
      else if is_zero y then (if is_zero x then NaN else signed_inf (sign_bit x \<noteq> sign_bit y))
      else if is_zero x then signed_zero (sign_bit x \<noteq> sign_bit y)
      else round64 (the (fin_val x) / the (fin_val y)))"

fun fl_floor :: "pyfloat \<Rightarrow> pyfloat" where
  "fl_floor (Finite q) = Finite (of_int \<lfloor>q\<rfloor>)"
| "fl_floor x = x"

definition trunc :: "rat \<Rightarrow> int" where
  "trunc q = (if 0 \<le> q then \<lfloor>q\<rfloor> else \<lceil>q\<rceil>)"

text \<open>C's \<^verbatim>\<open>fmod\<close>: exact, with the sign of the dividend.\<close>

definition fl_fmod :: "pyfloat \<Rightarrow> pyfloat \<Rightarrow> pyfloat" where
  "fl_fmod x y =
     (if is_nan x \<or> is_nan y \<or> is_inf x \<or> is_zero y then NaN
      else if is_inf y \<or> is_zero x then x
      else
        let a = the (fin_val x); b = the (fin_val y); r = a - b * of_int (trunc (a / b))
        in if r = 0 then signed_zero (sign_bit x) else Finite r)"

text \<open>\<^verbatim>\<open>DOUBLE_IS_ODD_INTEGER(x)\<close> of \<^verbatim>\<open>floatobject.c\<close>: \<^verbatim>\<open>fmod(fabs(x), 2.0) == 1.0\<close>.\<close>

definition double_is_odd_integer :: "pyfloat \<Rightarrow> bool" where
  "double_is_odd_integer x = fl_eq (fl_fmod (fl_abs x) (Finite 2)) (Finite 1)"

subsection \<open>Complex numbers\<close>

datatype cx = Cx (re: pyfloat) (im: pyfloat)

text \<open>\<^verbatim>\<open>_Py_c_sum\<close>, \<^verbatim>\<open>_Py_c_diff\<close>, \<^verbatim>\<open>_Py_c_neg\<close>, \<^verbatim>\<open>_Py_c_prod\<close> of \<^verbatim>\<open>complexobject.c\<close>.\<close>

definition c_sum :: "cx \<Rightarrow> cx \<Rightarrow> cx" where
  "c_sum a b = Cx (fl_add (re a) (re b)) (fl_add (im a) (im b))"

definition c_diff :: "cx \<Rightarrow> cx \<Rightarrow> cx" where
  "c_diff a b = Cx (fl_sub (re a) (re b)) (fl_sub (im a) (im b))"

definition c_neg :: "cx \<Rightarrow> cx" where
  "c_neg a = Cx (fl_neg (re a)) (fl_neg (im a))"

definition c_prod :: "cx \<Rightarrow> cx \<Rightarrow> cx" where
  "c_prod a b =
     Cx (fl_sub (fl_mul (re a) (re b)) (fl_mul (im a) (im b)))
        (fl_add (fl_mul (re a) (im b)) (fl_mul (im a) (re b)))"

text \<open>
  \<^verbatim>\<open>_Py_c_quot\<close>: the quotient, and whether \<^verbatim>\<open>errno\<close> was set to \<^verbatim>\<open>EDOM\<close> (a zero
  divisor). \<open>fl_abs0\<close> is the C expression \<^verbatim>\<open>x < 0 ? -x : x\<close>.
\<close>

definition fl_abs0 :: "pyfloat \<Rightarrow> pyfloat" where
  "fl_abs0 x = (if fl_less x (Finite 0) then fl_neg x else x)"

definition fl_ge :: "pyfloat \<Rightarrow> pyfloat \<Rightarrow> bool" where
  "fl_ge x y = (fl_less y x \<or> fl_eq x y)"

definition c_quot :: "cx \<Rightarrow> cx \<Rightarrow> cx \<times> bool" where
  "c_quot a b =
     (let abs_breal = fl_abs0 (re b); abs_bimag = fl_abs0 (im b) in
      if fl_ge abs_breal abs_bimag then
        (if fl_eq abs_breal (Finite 0) then (Cx (Finite 0) (Finite 0), True)
         else
           let ratio = fl_div (im b) (re b);
               denom = fl_add (re b) (fl_mul (im b) ratio)
           in (Cx (fl_div (fl_add (re a) (fl_mul (im a) ratio)) denom)
                  (fl_div (fl_sub (im a) (fl_mul (re a) ratio)) denom), False))
      else if fl_ge abs_bimag abs_breal then
        (let ratio = fl_div (re b) (im b);
             denom = fl_add (fl_mul (re b) ratio) (im b)
         in (Cx (fl_div (fl_add (fl_mul (re a) ratio) (im a)) denom)
                (fl_div (fl_sub (fl_mul (im a) ratio) (re a)) denom), False))
      else (Cx NaN NaN, False))"

text \<open>\<^verbatim>\<open>c_powu\<close>: binary powering; the C loop runs over the bits of \<open>n\<close> from the lowest.\<close>

fun c_powu_loop :: "cx \<Rightarrow> cx \<Rightarrow> nat \<Rightarrow> cx" where
  "c_powu_loop r p n =
     (if n = 0 then r
      else c_powu_loop (if odd n then c_prod r p else r) (c_prod p p) (n div 2))"

declare c_powu_loop.simps [simp del]

definition c_powu :: "cx \<Rightarrow> nat \<Rightarrow> cx" where
  "c_powu x n = c_powu_loop (Cx (Finite 1) (Finite 0)) x n"

definition c_powi :: "cx \<Rightarrow> int \<Rightarrow> cx \<times> bool" where
  "c_powi x n =
     (if 0 < n then (c_powu x (nat n), False)
      else c_quot (Cx (Finite 1) (Finite 0)) (c_powu x (nat (- n))))"

subsection \<open>The C library\<close>

text \<open>
  Two results come from the C library's transcendental functions and are not determined
  by IEEE 754: \<^verbatim>\<open>pow(x, y)\<close> on doubles, which \<^verbatim>\<open>float_pow\<close> calls for a finite positive
  base other than 1 and a finite nonzero exponent, and the general branch of
  \<^verbatim>\<open>_Py_c_pow\<close> (\<^verbatim>\<open>hypot\<close>, \<^verbatim>\<open>pow\<close>, \<^verbatim>\<open>atan2\<close>, \<^verbatim>\<open>exp\<close>, \<^verbatim>\<open>log\<close>, \<^verbatim>\<open>cos\<close>, \<^verbatim>\<open>sin\<close>),
  taken for a nonzero base and a nonzero exponent. The evaluator takes them as a
  parameter; every statement below holds for whatever the library computes.
\<close>

record libm =
  libm_pow :: "rat \<Rightarrow> rat \<Rightarrow> pyfloat"
  c_pow_general :: "cx \<Rightarrow> cx \<Rightarrow> cx"

subsection \<open>Values and exceptions\<close>

datatype pyval = VInt int | VBool bool | VFloat pyfloat | VComplex cx

text \<open>
  The exceptions that can leave \<^verbatim>\<open>safe_eval\<close>, each with the text of \<^verbatim>\<open>str(e)\<close>, which
  \<^verbatim>\<open>calculate_expression\<close> shows. \<^verbatim>\<open>IndentationError\<close> is counted as the
  \<^verbatim>\<open>SyntaxError\<close> it is a subclass of, and the parser's message is not modelled.
  Running out of stack or memory (\<^verbatim>\<open>RecursionError\<close>, \<^verbatim>\<open>MemoryError\<close>) is outside the model.
\<close>

datatype error =
    SyntaxError
  | ValueError string
  | ZeroDivisionError string
  | OverflowError string
  | TypeError string

fun type_name :: "pyval \<Rightarrow> string" where
  "type_name (VInt _) = ''int''"
| "type_name (VBool _) = ''bool''"
| "type_name (VFloat _) = ''float''"
| "type_name (VComplex _) = ''complex''"

text \<open>\<^verbatim>\<open>bool\<close> is a subclass of \<^verbatim>\<open>int\<close>: \<^verbatim>\<open>True\<close> is 1 and \<^verbatim>\<open>False\<close> is 0.\<close>

fun as_int :: "pyval \<Rightarrow> int option" where
  "as_int (VInt i) = Some i"
| "as_int (VBool b) = Some (if b then 1 else 0)"
| "as_int _ = None"

fun is_complex :: "pyval \<Rightarrow> bool" where
  "is_complex (VComplex _) = True"
| "is_complex _ = False"

text \<open>\<^verbatim>\<open>PyLong_AsDouble\<close>: the nearest double, or \<^verbatim>\<open>OverflowError\<close>.\<close>

definition float_of_int :: "int \<Rightarrow> error + pyfloat" where
  "float_of_int n =
     (let f = round64 (of_int n) in
      if is_inf f then Inl (OverflowError ''int too large to convert to float'') else Inr f)"

text \<open>\<^verbatim>\<open>CONVERT_TO_DOUBLE\<close> of \<^verbatim>\<open>floatobject.c\<close> and \<^verbatim>\<open>TO_COMPLEX\<close> of \<^verbatim>\<open>complexobject.c\<close>.\<close>

fun as_float :: "pyval \<Rightarrow> error + pyfloat" where
  "as_float (VFloat f) = Inr f"
| "as_float (VInt i) = float_of_int i"
| "as_float (VBool b) = float_of_int (if b then 1 else 0)"
| "as_float (VComplex c) = Inl (TypeError ''must be real number, not complex'')"

fun as_complex :: "pyval \<Rightarrow> error + cx" where
  "as_complex (VComplex c) = Inr c"
| "as_complex v = (case as_float v of Inl e \<Rightarrow> Inl e | Inr f \<Rightarrow> Inr (Cx f (Finite 0)))"

subsection \<open>The arithmetic operators\<close>

text \<open>
  Python picks the implementation of a binary operator from the operands' types: two
  \<^verbatim>\<open>int\<close>s (or \<^verbatim>\<open>bool\<close>s) use the integer operation; otherwise a \<^verbatim>\<open>complex\<close> operand
  makes both complex, and failing that both are converted to \<^verbatim>\<open>float\<close>.
\<close>

definition binary_op ::
  "(int \<Rightarrow> int \<Rightarrow> error + pyval) \<Rightarrow> (pyfloat \<Rightarrow> pyfloat \<Rightarrow> error + pyval) \<Rightarrow>
   (cx \<Rightarrow> cx \<Rightarrow> error + pyval) \<Rightarrow> pyval \<Rightarrow> pyval \<Rightarrow> error + pyval" where
  "binary_op on_int on_float on_complex l r =
     (case (as_int l, as_int r) of
        (Some a, Some b) \<Rightarrow> on_int a b
      | _ \<Rightarrow>
        if is_complex l \<or> is_complex r then
          (case as_complex l of
             Inl e \<Rightarrow> Inl e
           | Inr a \<Rightarrow> (case as_complex r of Inl e \<Rightarrow> Inl e | Inr b \<Rightarrow> on_complex a b))
        else
          (case as_float l of
             Inl e \<Rightarrow> Inl e
           | Inr a \<Rightarrow> (case as_float r of Inl e \<Rightarrow> Inl e | Inr b \<Rightarrow> on_float a b)))"

definition py_add :: "pyval \<Rightarrow> pyval \<Rightarrow> error + pyval" where
  "py_add =
     binary_op (\<lambda>a b. Inr (VInt (a + b))) (\<lambda>a b. Inr (VFloat (fl_add a b)))
       (\<lambda>a b. Inr (VComplex (c_sum a b)))"

definition py_sub :: "pyval \<Rightarrow> pyval \<Rightarrow> error + pyval" where
  "py_sub =
     binary_op (\<lambda>a b. Inr (VInt (a - b))) (\<lambda>a b. Inr (VFloat (fl_sub a b)))
       (\<lambda>a b. Inr (VComplex (c_diff a b)))"

definition py_mul :: "pyval \<Rightarrow> pyval \<Rightarrow> error + pyval" where
  "py_mul =
     binary_op (\<lambda>a b. Inr (VInt (a * b))) (\<lambda>a b. Inr (VFloat (fl_mul a b)))
       (\<lambda>a b. Inr (VComplex (c_prod a b)))"

text \<open>
  \<^verbatim>\<open>long_true_divide\<close>: the correctly rounded quotient; a zero quotient takes the sign of
  the exact one, and a quotient beyond the doubles is an \<^verbatim>\<open>OverflowError\<close>.
\<close>

definition int_true_divide :: "int \<Rightarrow> int \<Rightarrow> error + pyval" where
  "int_true_divide a b =
     (if b = 0 then Inl (ZeroDivisionError ''division by zero'')
      else if a = 0 then Inr (VFloat (signed_zero (b < 0)))
      else
        let f = round64 (of_int a / of_int b) in
        if is_inf f then Inl (OverflowError ''integer division result too large for a float'')
        else Inr (VFloat f))"

definition float_div :: "pyfloat \<Rightarrow> pyfloat \<Rightarrow> error + pyval" where
  "float_div a b =
     (if is_zero b then Inl (ZeroDivisionError ''float division by zero'')
      else Inr (VFloat (fl_div a b)))"

definition complex_div :: "cx \<Rightarrow> cx \<Rightarrow> error + pyval" where
  "complex_div a b =
     (case c_quot a b of
        (q, edom) \<Rightarrow>
          if edom then Inl (ZeroDivisionError ''complex division by zero'')
          else Inr (VComplex q))"

definition py_truediv :: "pyval \<Rightarrow> pyval \<Rightarrow> error + pyval" where
  "py_truediv = binary_op int_true_divide float_div complex_div"

text \<open>
  \<^verbatim>\<open>complex\<close> has no \<^verbatim>\<open>%\<close> and no \<^verbatim>\<open>//\<close>: with a complex operand both raise
  \<^verbatim>\<open>TypeError\<close>, before any conversion.
\<close>

definition unsupported_operand :: "string \<Rightarrow> pyval \<Rightarrow> pyval \<Rightarrow> error" where
  "unsupported_operand opname l r =
     TypeError (''unsupported operand type(s) for '' @ opname @ '': '' @ [CHR 0x27] @ type_name l
       @ [CHR 0x27] @ '' and '' @ [CHR 0x27] @ type_name r @ [CHR 0x27])"

text \<open>
  \<^verbatim>\<open>float_rem\<close>: C's \<^verbatim>\<open>fmod\<close>, then \<^verbatim>\<open>if (mod) { if ((wx < 0) != (mod < 0)) mod += wx; }
  else mod = copysign(0.0, wx);\<close>
\<close>

definition float_rem :: "pyfloat \<Rightarrow> pyfloat \<Rightarrow> error + pyval" where
  "float_rem vx wx =
     (if is_zero wx then Inl (ZeroDivisionError ''float modulo'')
      else
        let m = fl_fmod vx wx in
        Inr (VFloat
          (if \<not> is_zero m then
             (if fl_less wx (Finite 0) \<noteq> fl_less m (Finite 0) then fl_add m wx else m)
           else signed_zero (sign_bit wx))))"

definition py_mod :: "pyval \<Rightarrow> pyval \<Rightarrow> error + pyval" where
  "py_mod l r =
     (if is_complex l \<or> is_complex r then Inl (unsupported_operand ''%'' l r)
      else
        binary_op
          (\<lambda>a b. if b = 0 then Inl (ZeroDivisionError ''integer modulo by zero'')
                 else Inr (VInt (a mod b)))
          float_rem (\<lambda>a b. Inl (unsupported_operand ''%'' l r)) l r)"

text \<open>
  \<^verbatim>\<open>float_floor_div\<close> (\<^verbatim>\<open>_float_div_mod\<close>): the quotient is rebuilt from \<^verbatim>\<open>fmod\<close> as
  \<^verbatim>\<open>(vx - mod) / wx\<close>, lowered by one when the remainder had to change sign, and snapped
  to the nearest integral double.
\<close>

definition float_floor_div :: "pyfloat \<Rightarrow> pyfloat \<Rightarrow> error + pyval" where
  "float_floor_div vx wx =
     (if is_zero wx then Inl (ZeroDivisionError ''float floor division by zero'')
      else
        let m = fl_fmod vx wx;
            d0 = fl_div (fl_sub vx m) wx;
            d = (if \<not> is_zero m \<and> fl_less wx (Finite 0) \<noteq> fl_less m (Finite 0)
                 then fl_sub d0 (Finite 1) else d0)
        in Inr (VFloat
          (if \<not> is_zero d then
             (let fd = fl_floor d in
              if fl_less (Finite (1 / 2)) (fl_sub d fd) then fl_add fd (Finite 1) else fd)
           else signed_zero (sign_bit (fl_div vx wx)))))"

definition py_floordiv :: "pyval \<Rightarrow> pyval \<Rightarrow> error + pyval" where
  "py_floordiv l r =
     (if is_complex l \<or> is_complex r then Inl (unsupported_operand ''//'' l r)
      else
        binary_op
          (\<lambda>a b. if b = 0 then Inl (ZeroDivisionError ''integer division or modulo by zero'')
                 else Inr (VInt (a div b)))
          float_floor_div (\<lambda>a b. Inl (unsupported_operand ''//'' l r)) l r)"

text \<open>
  \<^verbatim>\<open>_Py_c_pow\<close> with its \<^verbatim>\<open>EDOM\<close> flag, and \<^verbatim>\<open>complex_pow\<close>: an exponent that is a
  small integer goes through \<^verbatim>\<open>c_powi\<close>; a zero divisor is a \<^verbatim>\<open>ZeroDivisionError\<close> and an
  infinite component of the result an \<^verbatim>\<open>OverflowError\<close>.
\<close>

definition py_c_pow :: "libm \<Rightarrow> cx \<Rightarrow> cx \<Rightarrow> cx \<times> bool" where
  "py_c_pow rt a b =
     (if fl_eq (re b) (Finite 0) \<and> fl_eq (im b) (Finite 0) then (Cx (Finite 1) (Finite 0), False)
      else if fl_eq (re a) (Finite 0) \<and> fl_eq (im a) (Finite 0) then
        (Cx (Finite 0) (Finite 0), \<not> fl_eq (im b) (Finite 0) \<or> fl_less (re b) (Finite 0))
      else (c_pow_general rt a b, False))"

definition complex_pow :: "libm \<Rightarrow> cx \<Rightarrow> cx \<Rightarrow> error + pyval" where
  "complex_pow rt a b =
     (case
        (if fl_eq (im b) (Finite 0) \<and> fl_eq (re b) (fl_floor (re b))
            \<and> fl_ge (Finite 100) (fl_abs (re b))
         then c_powi a (trunc (the (fin_val (re b))))
         else py_c_pow rt a b)
      of (p, edom) \<Rightarrow>
        if edom then Inl (ZeroDivisionError ''0.0 to a negative or complex power'')
        else if is_inf (re p) \<or> is_inf (im p) then Inl (OverflowError ''complex exponentiation'')
        else Inr (VComplex p))"

text \<open>
  \<^verbatim>\<open>float_pow\<close>, case by case as \<^verbatim>\<open>floatobject.c\<close> has it. A negative base with an
  exponent that is not integral is handed to \<^verbatim>\<open>complex_pow\<close>; the C library's \<^verbatim>\<open>pow\<close> is
  called last, and its overflow is an \<^verbatim>\<open>OverflowError\<close>.
\<close>

definition range_error :: error where
  "range_error = OverflowError (''(34, '' @ [CHR 0x27] @ ''Numerical result out of range''
     @ [CHR 0x27] @ '')'')"

definition float_pow :: "libm \<Rightarrow> pyfloat \<Rightarrow> pyfloat \<Rightarrow> error + pyval" where
  "float_pow rt iv iw =
     (if is_zero iw then Inr (VFloat (Finite 1))
      else if is_nan iv then Inr (VFloat iv)
      else if is_nan iw then Inr (VFloat (if fl_eq iv (Finite 1) then Finite 1 else iw))
      else if is_inf iw then
        (let a = fl_abs iv in
         if fl_eq a (Finite 1) then Inr (VFloat (Finite 1))
         else if fl_less (Finite 0) iw = fl_less (Finite 1) a then Inr (VFloat (fl_abs iw))
         else Inr (VFloat (Finite 0)))
      else if is_inf iv then
        (let iw_is_odd = double_is_odd_integer iw in
         if fl_less (Finite 0) iw then Inr (VFloat (if iw_is_odd then iv else fl_abs iv))
         else Inr (VFloat (if iw_is_odd then signed_zero (sign_bit iv) else Finite 0)))
      else if is_zero iv then
        (if fl_less iw (Finite 0)
         then Inl (ZeroDivisionError ''0.0 cannot be raised to a negative power'')
         else Inr (VFloat (if double_is_odd_integer iw then iv else Finite 0)))
      else if fl_less iv (Finite 0) \<and> \<not> fl_eq iw (fl_floor iw) then
        complex_pow rt (Cx iv (Finite 0)) (Cx iw (Finite 0))
      else
        (let negate_result = (fl_less iv (Finite 0) \<and> double_is_odd_integer iw);
             a = (if fl_less iv (Finite 0) then fl_neg iv else iv)
         in if fl_eq a (Finite 1) then Inr (VFloat (Finite (if negate_result then - 1 else 1)))
            else
              let ix = libm_pow rt (the (fin_val a)) (the (fin_val iw)) in
              if is_inf ix then Inl range_error
              else Inr (VFloat (if negate_result then fl_neg ix else ix))))"

text \<open>\<^verbatim>\<open>long_pow\<close>: exact for an exponent that is not negative, else \<^verbatim>\<open>float_pow\<close>.\<close>

definition int_pow :: "libm \<Rightarrow> int \<Rightarrow> int \<Rightarrow> error + pyval" where
  "int_pow rt a b =
     (if 0 \<le> b then Inr (VInt (a ^ nat b))
      else
        (case float_of_int a of
           Inl e \<Rightarrow> Inl e
         | Inr x \<Rightarrow> (case float_of_int b of Inl e \<Rightarrow> Inl e | Inr y \<Rightarrow> float_pow rt x y)))"

definition py_pow :: "libm \<Rightarrow> pyval \<Rightarrow> pyval \<Rightarrow> error + pyval" where
  "py_pow rt = binary_op (int_pow rt) (float_pow rt) (complex_pow rt)"

text \<open>Unary plus and minus; on a \<^verbatim>\<open>bool\<close> both give an \<^verbatim>\<open>int\<close>.\<close>

fun py_pos :: "pyval \<Rightarrow> pyval" where
  "py_pos (VBool b) = VInt (if b then 1 else 0)"
| "py_pos v = v"

fun py_neg :: "pyval \<Rightarrow> pyval" where
  "py_neg (VInt i) = VInt (- i)"
| "py_neg (VBool b) = VInt (if b then - 1 else 0)"
| "py_neg (VFloat f) = VFloat (fl_neg f)"
| "py_neg (VComplex c) = VComplex (c_neg c)"

section \<open>The evaluator\<close>

subsection \<open>Syntax trees\<close>

text \<open>
  The nodes of Python's \<^verbatim>\<open>ast\<close> module, as far as \<^verbatim>\<open>_eval_node\<close> tells them apart:
  it looks into \<^verbatim>\<open>Expression\<close>, \<^verbatim>\<open>BinOp\<close>, \<^verbatim>\<open>UnaryOp\<close> and \<^verbatim>\<open>Constant\<close>, and of any
  other node only at the name of its class (\<open>Other\<close> carries that name: \<^verbatim>\<open>Compare\<close>,
  \<^verbatim>\<open>BoolOp\<close>, \<^verbatim>\<open>Call\<close>, \<^verbatim>\<open>Attribute\<close>, \<^verbatim>\<open>Subscript\<close>, \<^verbatim>\<open>List\<close>, ...). The operator
  classes are all of \<^verbatim>\<open>ast.operator\<close> and \<^verbatim>\<open>ast.unaryop\<close>; \<open>PowOp\<close> and \<open>NotOp\<close> stand
  for \<^verbatim>\<open>ast.Pow\<close> and \<^verbatim>\<open>ast.Not\<close>.
\<close>

datatype operator =
  Add | Sub | Mult | MatMult | Div | Mod | PowOp | LShift | RShift | BitOr | BitXor | BitAnd
  | FloorDiv

datatype unaryop = Invert | NotOp | UAdd | USub

datatype const_value =
  CInt int | CFloat pyfloat | CComplex cx | CStr string | CBytes string | CBool bool | CNone
  | CEllipsis

datatype node =
    Expression node
  | BinOp node operator node
  | UnaryOp unaryop node
  | Constant const_value
  | Name string
  | Other string

subsection \<open>\<^verbatim>\<open>_eval_node\<close>\<close>

text \<open>
  The function of \<^verbatim>\<open>src/main.py\<close>, branch by branch. Both operands of a \<^verbatim>\<open>BinOp\<close> are
  evaluated, left first, before the operator is looked at. \<^verbatim>\<open>isinstance(node.value,
  (int, float))\<close> holds for \<^verbatim>\<open>int\<close>, \<^verbatim>\<open>float\<close> and \<^verbatim>\<open>bool\<close> values. The \<^verbatim>\<open>ast.Num\<close> branch
  is not reached: since Python 3.8 every instance of \<^verbatim>\<open>ast.Num\<close> is an \<^verbatim>\<open>ast.Constant\<close>.
\<close>

fun eval_node :: "libm \<Rightarrow> node \<Rightarrow> error + pyval" where
  "eval_node rt (Expression body) = eval_node rt body"
| "eval_node rt (BinOp l opr r) =
     (case eval_node rt l of
        Inl e \<Rightarrow> Inl e
      | Inr left \<Rightarrow>
        (case eval_node rt r of
           Inl e \<Rightarrow> Inl e
         | Inr right \<Rightarrow>
           (case opr of
              Add \<Rightarrow> py_add left right
            | Sub \<Rightarrow> py_sub left right
            | Mult \<Rightarrow> py_mul left right
            | Div \<Rightarrow> py_truediv left right
            | Mod \<Rightarrow> py_mod left right
            | FloorDiv \<Rightarrow> py_floordiv left right
            | PowOp \<Rightarrow> py_pow rt left right
            | _ \<Rightarrow> Inl (ValueError ''Unsupported operator''))))"
| "eval_node rt (UnaryOp opr operand) =
     (case eval_node rt operand of
        Inl e \<Rightarrow> Inl e
      | Inr val \<Rightarrow>
        (case opr of
           UAdd \<Rightarrow> Inr (py_pos val)
         | USub \<Rightarrow> Inr (py_neg val)
         | _ \<Rightarrow> Inl (ValueError ''Unsupported unary operator'')))"
| "eval_node rt (Constant c) =
     (case c of
        CInt i \<Rightarrow> Inr (VInt i)
      | CFloat f \<Rightarrow> Inr (VFloat f)
      | CBool b \<Rightarrow> Inr (VBool b)
      | _ \<Rightarrow> Inl (ValueError ''Only int/float constants allowed''))"
| "eval_node rt (Name ident) = Inl (ValueError ''Unsupported expression type: Name'')"
| "eval_node rt (Other cls) = Inl (ValueError (''Unsupported expression type: '' @ cls))"

section \<open>The parser\<close>

text \<open>
  \<^verbatim>\<open>safe_eval\<close> parses with \<^verbatim>\<open>ast.parse(expr, mode="eval")\<close>, which accepts every Python
  expression. The model covers the inputs written with decimal digits, \<^verbatim>\<open>.\<close>, letters,
  \<^verbatim>\<open>_\<close>, spaces, the operators \<^verbatim>\<open>+ - * / // % ** @ ~\<close> and parentheses; it follows
  Python's tokens and grammar on them (\<^verbatim>\<open>sum\<close>, \<^verbatim>\<open>term\<close>, \<^verbatim>\<open>factor\<close>, \<^verbatim>\<open>power\<close>,
  \<^verbatim>\<open>atom\<close>). On any other input the result is \<open>None\<close>: the model says nothing about it.
  That is the case for other characters, for a literal followed at once by a letter or
  \<^verbatim>\<open>_\<close> (as in \<^verbatim>\<open>1_000\<close>, \<^verbatim>\<open>0x10\<close>, \<^verbatim>\<open>1j\<close>), for keywords other than \<^verbatim>\<open>True\<close>, \<^verbatim>\<open>False\<close>
  and \<^verbatim>\<open>None\<close>, for a call (an opening parenthesis after an operand) and for the empty
  tuple \<^verbatim>\<open>()\<close>. The limit on the digits of an integer literal is not modelled.
\<close>

subsection \<open>Tokens\<close>

datatype token =
  TConst const_value | TName string | TOp operator | TTilde | TLPar | TRPar | TInvalid

definition is_digit :: "char \<Rightarrow> bool" where
  "is_digit c = (c \<in> set ''0123456789'')"

definition is_name_start :: "char \<Rightarrow> bool" where
  "is_name_start c =
     (c \<in> set ''abcdefghijklmnopqrstuvwxyzABCDEFGHIJKLMNOPQRSTUVWXYZ_'')"

definition is_name_char :: "char \<Rightarrow> bool" where
  "is_name_char c = (is_name_start c \<or> is_digit c)"

definition python_keywords :: "string list" where
  "python_keywords =
     [''False'', ''None'', ''True'', ''and'', ''as'', ''assert'', ''async'', ''await'',
      ''break'', ''class'', ''continue'', ''def'', ''del'', ''elif'', ''else'', ''except'',
      ''finally'', ''for'', ''from'', ''global'', ''if'', ''import'', ''in'', ''is'',
      ''lambda'', ''nonlocal'', ''not'', ''or'', ''pass'', ''raise'', ''return'', ''try'',
      ''while'', ''with'', ''yield'']"

definition name_token :: "string \<Rightarrow> token option" where
  "name_token w =
     (if w = ''True'' then Some (TConst (CBool True))
      else if w = ''False'' then Some (TConst (CBool False))
      else if w = ''None'' then Some (TConst CNone)
      else if w \<in> set python_keywords then None
      else Some (TName w))"

definition digits_value :: "string \<Rightarrow> nat" where
  "digits_value ds = foldl (\<lambda>a c. 10 * a + (of_char c - 48)) 0 ds"

text \<open>
  The exponent part of a float literal: \<^verbatim>\<open>e\<close> or \<^verbatim>\<open>E\<close>, a sign, digits. The result is
  the exponent, if there is one, and the text after it.
\<close>

definition scan_exponent :: "string \<Rightarrow> int option \<times> string" where
  "scan_exponent s =
     (case s of
        [] \<Rightarrow> (None, s)
      | c # r \<Rightarrow>
        if c = CHR ''e'' \<or> c = CHR ''E'' then
          (let neg = (r \<noteq> [] \<and> hd r = CHR ''-'');
               r' = (if r \<noteq> [] \<and> (hd r = CHR ''+'' \<or> hd r = CHR ''-'') then tl r else r);
               ds = takeWhile is_digit r'
           in if ds = [] then (None, s)
              else (Some ((if neg then - 1 else 1) * int (digits_value ds)),
                    dropWhile is_digit r'))
        else (None, s))"

text \<open>
  A number at the head of \<open>s\<close>: an integer literal (one with a leading zero is an error
  unless it is all zeros) or a float literal, whose value is the nearest double of the
  decimal. The token is \<open>None\<close> when a letter or \<^verbatim>\<open>_\<close> follows the literal.
\<close>

definition scan_number :: "string \<Rightarrow> token option \<times> string" where
  "scan_number s =
     (let ip = takeWhile is_digit s;
          r1 = dropWhile is_digit s;
          has_dot = (r1 \<noteq> [] \<and> hd r1 = CHR ''.'');
          fp = (if has_dot then takeWhile is_digit (tl r1) else []);
          r2 = (if has_dot then dropWhile is_digit (tl r1) else r1);
          ex = scan_exponent r2;
          r3 = snd ex
      in if r3 \<noteq> [] \<and> is_name_char (hd r3) then (None, r3)
         else if \<not> has_dot \<and> fst ex = None then
           (Some (if 1 < length ip \<and> hd ip = CHR ''0'' \<and> (\<exists>d \<in> set ip. d \<noteq> CHR ''0'')
                  then TInvalid else TConst (CInt (int (digits_value ip)))), r3)
         else
           (Some (TConst (CFloat (round64
              (of_nat (digits_value (ip @ fp))
                 * 10 powi ((case fst ex of None \<Rightarrow> 0 | Some e \<Rightarrow> e) - int (length fp)))))),
            r3))"

lemma scan_exponent_length: "length (snd (scan_exponent s)) \<le> length s"
proof (cases s)
  case Nil
  then show ?thesis by (simp add: scan_exponent_def)
next
  case (Cons c r)
  have "length (dropWhile is_digit (tl r)) \<le> length r"
    by (rule order_trans [OF length_dropWhile_le]) simp
  moreover have "length (dropWhile is_digit r) \<le> length r"
    by (rule length_dropWhile_le)
  ultimately show ?thesis
    using Cons by (auto simp: scan_exponent_def Let_def intro: le_SucI)
qed

lemma scan_number_length:
  assumes "s \<noteq> []" and "is_digit (hd s) \<or> hd s = CHR ''.''"
  shows "length (snd (scan_number s)) < length s"
proof -
  define r1 where "r1 = dropWhile is_digit s"
  define r2 where
    "r2 = (if r1 \<noteq> [] \<and> hd r1 = CHR ''.'' then dropWhile is_digit (tl r1) else r1)"
  have r1: "length r1 \<le> length s"
    unfolding r1_def by (rule length_dropWhile_le)
  have "length r2 < length s"
  proof (cases "is_digit (hd s)")
    case True
    with assms(1) have "length r1 < length s"
      unfolding r1_def by (cases s) (auto intro: le_imp_less_Suc length_dropWhile_le)
    moreover have "length r2 \<le> length r1"
      unfolding r2_def
      by (auto intro: order_trans [OF length_dropWhile_le] simp: le_SucI)
    ultimately show ?thesis by simp
  next
    case False
    with assms have dot: "hd s = CHR ''.''" by simp
    with False assms(1) have "r1 = s"
      unfolding r1_def by (cases s) auto
    with dot assms(1) have "r2 = dropWhile is_digit (tl s)"
      unfolding r2_def by simp
    moreover have "length (dropWhile is_digit (tl s)) \<le> length (tl s)"
      by (rule length_dropWhile_le)
    ultimately show ?thesis using assms(1) by (cases s) auto
  qed
  moreover have "length (snd (scan_exponent r2)) \<le> length r2"
    by (rule scan_exponent_length)
  moreover have "snd (scan_number s) = snd (scan_exponent r2)"
    unfolding scan_number_def r2_def r1_def by (simp add: Let_def)
  ultimately show ?thesis by simp
qed

text \<open>The tokens of a line; \<open>None\<close> outside the modelled fragment.\<close>

function tokenize :: "string \<Rightarrow> token list option" where
  "tokenize [] = Some []"
| "tokenize (c # cs) =
     (if c = CHR '' '' then tokenize cs
      else if is_digit c \<or> (c = CHR ''.'' \<and> cs \<noteq> [] \<and> is_digit (hd cs)) then
        (case fst (scan_number (c # cs)) of
           None \<Rightarrow> None
         | Some t \<Rightarrow> map_option ((#) t) (tokenize (snd (scan_number (c # cs)))))
      else if is_name_start c then
        (case name_token (c # takeWhile is_name_char cs) of
           None \<Rightarrow> None
         | Some t \<Rightarrow> map_option ((#) t) (tokenize (dropWhile is_name_char cs)))
      else if c = CHR ''*'' \<and> cs \<noteq> [] \<and> hd cs = CHR ''*'' then
        map_option ((#) (TOp PowOp)) (tokenize (tl cs))
      else if c = CHR ''/'' \<and> cs \<noteq> [] \<and> hd cs = CHR ''/'' then
        map_option ((#) (TOp FloorDiv)) (tokenize (tl cs))
      else if c = CHR ''+'' then map_option ((#) (TOp Add)) (tokenize cs)
      else if c = CHR ''-'' then map_option ((#) (TOp Sub)) (tokenize cs)
      else if c = CHR ''*'' then map_option ((#) (TOp Mult)) (tokenize cs)
      else if c = CHR ''/'' then map_option ((#) (TOp Div)) (tokenize cs)
      else if c = CHR ''%'' then map_option ((#) (TOp Mod)) (tokenize cs)
      else if c = CHR ''@'' then map_option ((#) (TOp MatMult)) (tokenize cs)
      else if c = CHR ''~'' then map_option ((#) TTilde) (tokenize cs)
      else if c = CHR ''('' then map_option ((#) TLPar) (tokenize cs)
      else if c = CHR '')'' then map_option ((#) TRPar) (tokenize cs)
      else None)"
  by pat_completeness auto

termination
proof (relation "measure length")
  show "wf (measure length)" by simp
next
  fix c :: char and cs :: string
  assume "is_digit c \<or> c = CHR ''.'' \<and> cs \<noteq> [] \<and> is_digit (hd cs)"
  then have "length (snd (scan_number (c # cs))) < length (c # cs)"
    by (intro scan_number_length) auto
  then show "(snd (scan_number (c # cs)), c # cs) \<in> measure length" by simp
next
  fix c :: char and cs :: string
  show "(dropWhile is_name_char cs, c # cs) \<in> measure length"
    by (simp add: le_imp_less_Suc length_dropWhile_le)
qed (auto intro: le_imp_less_Suc)

subsection \<open>Grammar\<close>

text \<open>
  Python's arithmetic grammar, by operator precedence: \<^verbatim>\<open>+ -\<close> bind least, then
  \<^verbatim>\<open>* / // % @\<close>, then the prefix operators \<^verbatim>\<open>+ - ~\<close>, then \<^verbatim>\<open>**\<close>, which groups to the
  right and takes a prefix operator in its right operand (\<^verbatim>\<open>2 ** -1\<close>). The parser keeps
  a stack of pending operators and a stack of finished operands.
\<close>

datatype item = IBin operator | IUn unaryop | IParen

fun prec :: "operator \<Rightarrow> nat" where
  "prec BitOr = 1"
| "prec BitXor = 2"
| "prec BitAnd = 3"
| "prec LShift = 4"
| "prec RShift = 4"
| "prec Add = 5"
| "prec Sub = 5"
| "prec Mult = 6"
| "prec MatMult = 6"
| "prec Div = 6"
| "prec FloorDiv = 6"
| "prec Mod = 6"
| "prec PowOp = 8"

text \<open>Whether a pending operator takes its operands before the binary operator \<open>opr\<close>.\<close>

fun binds_first :: "operator \<Rightarrow> item \<Rightarrow> bool" where
  "binds_first opr (IBin o2) = (if opr = PowOp then prec opr < prec o2 else prec opr \<le> prec o2)"
| "binds_first opr (IUn _) = (prec opr \<le> 7)"
| "binds_first opr IParen = False"

fun apply_item :: "item \<Rightarrow> node list \<Rightarrow> node list option" where
  "apply_item (IBin opr) (r # l # out) = Some (BinOp l opr r # out)"
| "apply_item (IUn opr) (x # out) = Some (UnaryOp opr x # out)"
| "apply_item _ _ = None"

fun unwind :: "(item \<Rightarrow> bool) \<Rightarrow> item list \<Rightarrow> node list \<Rightarrow> (item list \<times> node list) option" where
  "unwind p [] out = Some ([], out)"
| "unwind p (i # st) out =
     (if i \<noteq> IParen \<and> p i then
        (case apply_item i out of None \<Rightarrow> None | Some out' \<Rightarrow> unwind p st out')
      else Some (i # st, out))"

text \<open>
  \<open>shunt ts want st out\<close>: \<open>want\<close> says that an operand must come next. The result is
  \<open>None\<close> on a call or an empty tuple.
\<close>

fun shunt :: "token list \<Rightarrow> bool \<Rightarrow> item list \<Rightarrow> node list \<Rightarrow> (error + node) option" where
  "shunt [] want st out =
     (if want then Some (Inl SyntaxError)
      else
        (case unwind (\<lambda>_. True) st out of
           Some ([], [n]) \<Rightarrow> Some (Inr n)
         | _ \<Rightarrow> Some (Inl SyntaxError)))"
| "shunt (TConst c # ts) want st out =
     (if want then shunt ts False st (Constant c # out) else Some (Inl SyntaxError))"
| "shunt (TName x # ts) want st out =
     (if want then shunt ts False st (Name x # out) else Some (Inl SyntaxError))"
| "shunt (TTilde # ts) want st out =
     (if want then shunt ts True (IUn Invert # st) out else Some (Inl SyntaxError))"
| "shunt (TInvalid # ts) want st out = Some (Inl SyntaxError)"
| "shunt (TLPar # ts) want st out =
     (if want then shunt ts True (IParen # st) out else None)"
| "shunt (TRPar # ts) want st out =
     (if want then (case st of IParen # _ \<Rightarrow> None | _ \<Rightarrow> Some (Inl SyntaxError))
      else
        (case unwind (\<lambda>_. True) st out of
           Some (IParen # st', out') \<Rightarrow> shunt ts False st' out'
         | _ \<Rightarrow> Some (Inl SyntaxError)))"
| "shunt (TOp opr # ts) want st out =
     (if want then
        (if opr = Add then shunt ts True (IUn UAdd # st) out
         else if opr = Sub then shunt ts True (IUn USub # st) out
         else Some (Inl SyntaxError))
      else
        (case unwind (binds_first opr) st out of
           None \<Rightarrow> Some (Inl SyntaxError)
         | Some (st', out') \<Rightarrow> shunt ts True (IBin opr # st') out'))"

text \<open>
  \<^verbatim>\<open>ast.parse(expr, mode="eval")\<close>: the tree under an \<^verbatim>\<open>Expression\<close> root, or
  \<^verbatim>\<open>SyntaxError\<close>. A line that begins with a space is an \<^verbatim>\<open>IndentationError\<close>.
\<close>

definition parse :: "string \<Rightarrow> (error + node) option" where
  "parse s =
     (case tokenize s of
        None \<Rightarrow> None
      | Some ts \<Rightarrow>
        if s \<noteq> [] \<and> hd s = CHR '' '' then Some (Inl SyntaxError)
        else map_option (map_sum id Expression) (shunt ts True [] []))"

section \<open>The entry points\<close>

text \<open>\<^verbatim>\<open>safe_eval\<close>: parse, then evaluate; an exception of either step leaves it.\<close>

definition safe_eval :: "libm \<Rightarrow> string \<Rightarrow> (error + pyval) option" where
  "safe_eval rt expr =
     (case parse expr of
        None \<Rightarrow> None
      | Some (Inl e) \<Rightarrow> Some (Inl e)
      | Some (Inr parsed) \<Rightarrow> Some (eval_node rt parsed))"

text \<open>
  \<^verbatim>\<open>calculate_expression\<close> reads the value of the element \<^verbatim>\<open>#expression\<close> and writes to
  the element \<^verbatim>\<open>#output\<close>. The page is the state: the input's value and the output
  element, each absent when the page has no such element. What is written is kept in
  structured form: \<open>Result v t\<close> stands for the markup
  \<^verbatim>\<open>f"Result: {v}<br>Type: {t}"\<close> and \<open>Error e\<close> for the text \<^verbatim>\<open>f"Error: {e}"\<close>.
\<close>

datatype rendered = Result pyval string | Error error | Text string

record output_el =
  inner :: rendered
  color :: string

record page =
  expression :: "string option"
  out_el :: "output_el option"

definition is_space :: "char \<Rightarrow> bool" where
  "is_space c =
     (c \<in> {CHR 0x09, CHR 0x0A, CHR 0x0B, CHR 0x0C, CHR 0x0D, CHR 0x1C, CHR 0x1D, CHR 0x1E,
            CHR 0x1F, CHR '' ''})"

definition strip :: "string \<Rightarrow> string" where
  "strip s = rev (dropWhile is_space (rev (dropWhile is_space s)))"

text \<open>\<^verbatim>\<open>float.is_integer\<close> and \<^verbatim>\<open>int(x)\<close> for a float \<open>x\<close> that is an integer.\<close>

fun is_integer :: "pyfloat \<Rightarrow> bool" where
  "is_integer (Finite q) = (of_int \<lfloor>q\<rfloor> = q)"
| "is_integer NegZero = True"
| "is_integer _ = False"

fun int_of_float :: "pyfloat \<Rightarrow> int" where
  "int_of_float (Finite q) = trunc q"
| "int_of_float _ = 0"

text \<open>
  The normalisation of lines 78 and 79:
  \<^verbatim>\<open>if isinstance(result, float) and result.is_integer(): result = int(result)\<close>.
\<close>

definition normalize_result :: "pyval \<Rightarrow> pyval" where
  "normalize_result result =
     (case result of
        VFloat f \<Rightarrow> if is_integer f then VInt (int_of_float f) else result
      | _ \<Rightarrow> result)"

definition calculate_expression :: "libm \<Rightarrow> page \<Rightarrow> page option" where
  "calculate_expression rt pg =
     (case (expression pg, out_el pg) of
        (Some v, Some _) \<Rightarrow>
          (let expr = strip v in
           if expr = [] then
             Some (pg\<lparr>out_el := Some \<lparr>inner = Text ''Please enter an expression.'',
                                       color = ''red''\<rparr>\<rparr>)
           else
             (case safe_eval rt expr of
                None \<Rightarrow> None
              | Some (Inr result) \<Rightarrow>
                  Some (pg\<lparr>out_el := Some \<lparr>inner = Result (normalize_result result)
                                                       (type_name (normalize_result result)),
                                            color = ''green''\<rparr>\<rparr>)
              | Some (Inl e) \<Rightarrow>
                  Some (pg\<lparr>out_el := Some \<lparr>inner = Error e, color = ''red''\<rparr>\<rparr>)))
      | _ \<Rightarrow> Some pg)"

section \<open>Predicates of the statements\<close>

text \<open>
  A tree that holds, where \<^verbatim>\<open>_eval_node\<close> will walk, something outside its whitelist: a
  name, a node of another class (a comparison, a boolean operation, a call, ...), a
  constant that is no number (a string, \<^verbatim>\<open>None\<close>, ...), or an operator it does not know.
  A \<^verbatim>\<open>bool\<close> constant is not counted: the \<^verbatim>\<open>isinstance\<close> check lets it through.
\<close>

fun has_unsupported :: "node \<Rightarrow> bool" where
  "has_unsupported (Expression body) = has_unsupported body"
| "has_unsupported (BinOp l opr r) =
     (has_unsupported l \<or> has_unsupported r
      \<or> opr \<notin> {Add, Sub, Mult, Div, Mod, FloorDiv, PowOp})"
| "has_unsupported (UnaryOp opr operand) = (has_unsupported operand \<or> opr \<notin> {UAdd, USub})"
| "has_unsupported (Constant c) =
     (case c of CInt _ \<Rightarrow> False | CFloat _ \<Rightarrow> False | CBool _ \<Rightarrow> False | _ \<Rightarrow> True)"
| "has_unsupported (Name _) = True"
| "has_unsupported (Other _) = True"

text \<open>The values that are zero: \<^verbatim>\<open>0\<close>, \<^verbatim>\<open>False\<close>, \<^verbatim>\<open>0.0\<close>, \<^verbatim>\<open>-0.0\<close> and the complex zeros.\<close>

fun is_zero_value :: "pyval \<Rightarrow> bool" where
  "is_zero_value (VInt i) = (i = 0)"
| "is_zero_value (VBool b) = (\<not> b)"
| "is_zero_value (VFloat f) = is_zero f"
| "is_zero_value (VComplex c) = (is_zero (re c) \<and> is_zero (im c))"







section \<open>Properties\<close>

subsection \<open>Rounding\<close>

lemma round64_zero: "round64 0 = Finite 0"
  by (simp add: round64_def)

lemma bit_length_lower: "2 ^ k \<le> n \<Longrightarrow> k < bit_length n"
proof (induction k arbitrary: n)
  case 0
  then show ?case by (subst bit_length.simps) auto
next
  case (Suc k)
  then have "2 ^ k \<le> n div 2" by auto
  then have "k < bit_length (n div 2)" by (rule Suc.IH)
  moreover have "(0::nat) < 2 ^ Suc k" by simp
  with Suc.prems have "n \<noteq> 0" by linarith
  ultimately show ?case by (subst bit_length.simps) simp
qed

lemma bit_length_bound: "0 < n \<Longrightarrow> 2 ^ (bit_length n - 1) \<le> n"
proof (induction n rule: bit_length.induct)
  case (1 n)
  show ?case
  proof (cases "n div 2 = 0")
    case True
    with 1 have "n = 1" by (auto simp: div_eq_0_iff)
    then show ?thesis by (simp add: bit_length.simps)
  next
    case False
    with 1 have "2 ^ (bit_length (n div 2) - 1) \<le> n div 2" by simp
    moreover from False have "0 < bit_length (n div 2)"
      by (subst bit_length.simps) simp
    moreover from 1 have "bit_length n = Suc (bit_length (n div 2))"
      by (subst bit_length.simps) simp
    ultimately have "2 ^ (bit_length n - 1) \<le> 2 * (n div 2)"
      by (cases "bit_length (n div 2)") auto
    then show ?thesis by linarith
  qed
qed

lemma round_half_even_ge_floor: "\<lfloor>x\<rfloor> \<le> round_half_even x"
  by (simp add: round_half_even_def Let_def)

lemma ilog2_lower:
  assumes "2 ^ k \<le> q"
  shows "int k \<le> ilog2 q" and "2 ^ nat (ilog2 q) \<le> q"
proof -
  have q1: "1 \<le> q" by (rule order_trans [OF _ assms]) simp
  define n where "n = nat \<lfloor>q\<rfloor>"
  have fl: "0 \<le> \<lfloor>q\<rfloor>" using q1 by simp
  have "(2::int) ^ k \<le> \<lfloor>q\<rfloor>" using assms by (simp add: le_floor_iff)
  then have n_ge: "2 ^ k \<le> n" unfolding n_def using fl by (simp add: le_nat_iff)
  then have bl: "k < bit_length n" by (rule bit_length_lower)
  have npos: "0 < n" using n_ge by (rule less_le_trans [rotated]) simp
  have il: "ilog2 q = int (bit_length n) - 1"
    using q1 by (simp add: ilog2_def n_def Let_def)
  show "int k \<le> ilog2 q" using bl il by simp
  have "2 ^ (bit_length n - 1) \<le> n" using npos by (rule bit_length_bound)
  then have "int (2 ^ (bit_length n - 1)) \<le> int n" by (simp only: of_nat_le_iff)
  then have "(2::int) ^ (bit_length n - 1) \<le> \<lfloor>q\<rfloor>" using fl by (simp add: n_def)
  then have "(2::rat) ^ (bit_length n - 1) \<le> q" by (simp add: le_floor_iff)
  moreover have "nat (ilog2 q) = bit_length n - 1" using il by simp
  ultimately show "2 ^ nat (ilog2 q) \<le> q" by simp
qed

lemma round64_overflow:
  assumes "2 ^ 1024 \<le> q"
  shows "round64 q = PosInf"
proof -
  define B :: rat where "B = 2 ^ 1024"
  have Bq: "B \<le> q" using assms by (simp only: B_def)
  have Bpos: "0 < B" by (simp only: B_def zero_less_power zero_less_numeral)
  have q0: "0 < q" using Bq Bpos by simp
  define e where "e = ilog2 q"
  have e_ge: "1024 \<le> e" using ilog2_lower(1) [OF assms] by (simp add: e_def)
  have pow_le: "(2::rat) ^ nat e \<le> q" using ilog2_lower(2) [OF assms] by (simp only: e_def)
  define u :: rat where "u = 2 powi (e - 52)"
  have u_eq: "u = 2 ^ nat (e - 52)" using e_ge by (simp add: u_def power_int_def)
  have upos: "0 < u" by (simp add: u_eq)
  have "nat e = 52 + nat (e - 52)" using e_ge by simp
  then have split: "(2::rat) ^ nat e = 2 ^ 52 * u" by (simp only: u_eq power_add)
  with pow_le have "2 ^ 52 * u \<le> q" by simp
  then have "2 ^ 52 \<le> q / u" using upos by (simp only: pos_le_divide_eq)
  then have "(2::int) ^ 52 \<le> \<lfloor>q / u\<rfloor>" by (simp add: le_floor_iff)
  then have m_ge: "2 ^ 52 \<le> round_half_even (q / u)"
    using round_half_even_ge_floor [of "q / u"] by linarith
  define m where "m = round_half_even (q / u)"
  have "(of_int (2 ^ 52) :: rat) \<le> of_int m" using m_ge unfolding m_def by (simp only: of_int_le_iff)
  then have "(2::rat) ^ 52 \<le> of_int m" by simp
  then have "2 ^ 52 * u \<le> of_int m * u" using upos by (simp only: mult_le_cancel_right_pos)
  moreover have "nat e = 1024 + nat (e - 1024)" using e_ge by simp
  then have "(2::rat) ^ nat e = B * 2 ^ nat (e - 1024)" by (simp only: B_def power_add)
  then have "B \<le> 2 ^ nat e" using Bpos by (simp add: one_le_power)
  ultimately have "B \<le> \<bar>of_int m * u\<bar>" using split by linarith
  moreover have "max (ilog2 q) (- 1022) = e" using e_ge by (simp add: e_def)
  moreover have "q \<noteq> 0" using q0 by simp
  ultimately show ?thesis
    using q0 unfolding round64_def Let_def m_def u_def B_def by (simp only: if_True if_False)
qed

subsection \<open>Literals and conversions\<close>



lemma float_of_int_zero: "float_of_int 0 = Inr (Finite 0)"
  by (simp add: float_of_int_def round64_zero)

lemma float_of_int_cases:
  "float_of_int i = Inl (OverflowError ''int too large to convert to float'')
   \<or> (\<exists>f. float_of_int i = Inr f)"
  by (simp add: float_of_int_def Let_def)

lemma c_quot_zero: "is_zero (re b) \<Longrightarrow> is_zero (im b) \<Longrightarrow> snd (c_quot a b)"
  by (cases "re b"; cases "im b")
    (simp_all add: c_quot_def fl_abs0_def fl_ge_def Let_def)

lemma complex_div_zero:
  "is_zero (re y) \<Longrightarrow> is_zero (im y) \<Longrightarrow>
     complex_div x y = Inl (ZeroDivisionError ''complex division by zero'')"
  using c_quot_zero [of y x] by (cases "c_quot x y") (simp add: complex_div_def)

subsection \<open>What the whitelist rejects\<close>

text \<open>
  Claim C1, as amended. A tree with a name, a string or other non-numeric constant, a
  comparison, a boolean operation, a call or any other node or operator outside the
  whitelist is parsed without complaint; it is \<^verbatim>\<open>_eval_node\<close> that rejects it. The
  evaluation fails with an exception and never returns a value: the \<^verbatim>\<open>ValueError\<close> of the
  whitelist, or the arithmetic error of an operand evaluated before the offending node
  is reached.
\<close>

theorem C1_unsupported_rejected: "has_unsupported n \<Longrightarrow> \<exists>e. eval_node rt n = Inl e"
  by (induction n) (auto split: sum.splits operator.splits unaryop.splits const_value.splits)

text \<open>The theorem at \<^verbatim>\<open>x + 1\<close>, for every C library.\<close>

theorem C1_unsupported_rejected_witness:
  "has_unsupported (BinOp (Name ''x'') Add (Constant (CInt 1)))
   \<and> (\<forall>rt. \<exists>e. eval_node rt (BinOp (Name ''x'') Add (Constant (CInt 1))) = Inl e)"
proof (intro conjI allI)
  show u: "has_unsupported (BinOp (Name ''x'') Add (Constant (CInt 1)))" by simp
  fix rt
  show "\<exists>e. eval_node rt (BinOp (Name ''x'') Add (Constant (CInt 1))) = Inl e"
    by (rule C1_unsupported_rejected [OF u])
qed

text \<open>
  Claim C1 as stated fails at the input \<^verbatim>\<open>x\<close>: the parse step succeeds and returns a
  \<^verbatim>\<open>Name\<close> node, and the exception is the evaluator's \<^verbatim>\<open>ValueError\<close>, not a
  \<^verbatim>\<open>SyntaxError\<close>.
\<close>

theorem C1_identifier_counterexample:
  "parse ''x'' = Some (Inr (Expression (Name ''x'')))
   \<and> (\<forall>rt. safe_eval rt ''x'' = Some (Inl (ValueError ''Unsupported expression type: Name'')))"
proof (intro conjI allI)
  show "parse ''x'' = Some (Inr (Expression (Name ''x'')))" by code_simp
  fix rt
  show "safe_eval rt ''x'' = Some (Inl (ValueError ''Unsupported expression type: Name''))"
    by code_simp
qed

subsection \<open>Division by zero\<close>

text \<open>
  Claim C3, as amended. When both operands of \<^verbatim>\<open>/\<close> evaluate and the right one is zero,
  the division raises and returns neither an infinity nor a NaN. The exception is
  \<^verbatim>\<open>ZeroDivisionError\<close> with the text \<^verbatim>\<open>division by zero\<close> for two ints (or bools),
  \<^verbatim>\<open>float division by zero\<close> when an operand is a float and \<^verbatim>\<open>complex division by zero\<close>
  when one is complex; an int operand too large for a float raises \<^verbatim>\<open>OverflowError\<close>
  in the conversion, before the divisor is looked at.
\<close>

theorem C3_division_by_zero:
  assumes "eval_node rt l = Inr a" and "eval_node rt r = Inr b" and "is_zero_value b"
  shows "(as_int a \<noteq> None \<and> as_int b \<noteq> None
            \<and> eval_node rt (BinOp l Div r) = Inl (ZeroDivisionError ''division by zero''))
       \<or> ((as_int a = None \<or> as_int b = None) \<and> \<not> is_complex a \<and> \<not> is_complex b
            \<and> (eval_node rt (BinOp l Div r) = Inl (ZeroDivisionError ''float division by zero'')
                \<or> as_int a \<noteq> None
                  \<and> eval_node rt (BinOp l Div r)
                      = Inl (OverflowError ''int too large to convert to float'')))
       \<or> ((is_complex a \<or> is_complex b)
            \<and> (eval_node rt (BinOp l Div r) = Inl (ZeroDivisionError ''complex division by zero'')
                \<or> as_int a \<noteq> None
                  \<and> eval_node rt (BinOp l Div r)
                      = Inl (OverflowError ''int too large to convert to float'')))"
proof -
  have ev: "eval_node rt (BinOp l Div r) = py_truediv a b"
    using assms(1,2) by simp
  note cq = complex_div_zero
  show ?thesis
  proof (cases b)
    case (VInt j)
    with assms(3) have b0: "b = VInt 0" by simp
    show ?thesis
    proof (cases a)
      case (VInt i)
      then show ?thesis using b0 ev
        by (simp add: py_truediv_def binary_op_def int_true_divide_def)
    next
      case (VBool c)
      then show ?thesis using b0 ev
        by (simp add: py_truediv_def binary_op_def int_true_divide_def)
    next
      case (VFloat f)
      then show ?thesis using b0 ev
        by (simp add: py_truediv_def binary_op_def float_div_def float_of_int_zero)
    next
      case (VComplex c)
      then show ?thesis using b0 ev
        by (simp add: py_truediv_def binary_op_def float_of_int_zero cq)
    qed
  next
    case (VBool c)
    with assms(3) have b0: "b = VBool False" by simp
    show ?thesis
    proof (cases a)
      case (VInt i)
      then show ?thesis using b0 ev
        by (simp add: py_truediv_def binary_op_def int_true_divide_def)
    next
      case (VBool c)
      then show ?thesis using b0 ev
        by (simp add: py_truediv_def binary_op_def int_true_divide_def)
    next
      case (VFloat f)
      then show ?thesis using b0 ev
        by (simp add: py_truediv_def binary_op_def float_div_def float_of_int_zero)
    next
      case (VComplex c)
      then show ?thesis using b0 ev
        by (simp add: py_truediv_def binary_op_def float_of_int_zero cq)
    qed
  next
    case (VFloat g)
    with assms(3) have g0: "is_zero g" by simp
    show ?thesis
    proof (cases a)
      case (VInt i)
      then show ?thesis using VFloat g0 ev float_of_int_cases [of i]
        by (auto simp: py_truediv_def binary_op_def float_div_def)
    next
      case (VBool c)
      then show ?thesis using VFloat g0 ev float_of_int_cases [of "if c then 1 else 0"]
        by (auto simp: py_truediv_def binary_op_def float_div_def)
    next
      case (VFloat f)
      then show ?thesis using \<open>b = VFloat g\<close> g0 ev
        by (simp add: py_truediv_def binary_op_def float_div_def)
    next
      case (VComplex c)
      then show ?thesis using VFloat g0 ev
        by (simp add: py_truediv_def binary_op_def cq)
    qed
  next
    case (VComplex d)
    with assms(3) have d0: "is_zero (re d)" "is_zero (im d)" by simp_all
    show ?thesis
    proof (cases a)
      case (VInt i)
      then show ?thesis using VComplex d0 ev float_of_int_cases [of i]
        by (auto simp: py_truediv_def binary_op_def cq)
    next
      case (VBool c)
      then show ?thesis using VComplex d0 ev float_of_int_cases [of "if c then 1 else 0"]
        by (auto simp: py_truediv_def binary_op_def cq)
    next
      case (VFloat f)
      then show ?thesis using VComplex d0 ev
        by (simp add: py_truediv_def binary_op_def cq)
    next
      case (VComplex c)
      then show ?thesis using \<open>b = VComplex d\<close> d0 ev
        by (simp add: py_truediv_def binary_op_def cq)
    qed
  qed
qed

text \<open>
  Claim C3 as stated fails at \<^verbatim>\<open>5 / 0.0\<close>: the message is \<^verbatim>\<open>float division by zero\<close>, not
  \<^verbatim>\<open>division by zero\<close>.
\<close>

theorem C3_float_message_counterexample:
  "py_truediv (VInt 5) (VFloat (Finite 0)) = Inl (ZeroDivisionError ''float division by zero'')
   \<and> (\<forall>rt. safe_eval rt ''5 / 0.0''
         = Some (Inl (ZeroDivisionError ''float division by zero'')))"
proof (intro conjI allI)
  show "py_truediv (VInt 5) (VFloat (Finite 0))
      = Inl (ZeroDivisionError ''float division by zero'')"
    by code_simp
  fix rt
  show "safe_eval rt ''5 / 0.0'' = Some (Inl (ZeroDivisionError ''float division by zero''))"
    by code_simp
qed

text \<open>The theorem at \<^verbatim>\<open>5 / 0\<close>, for every C library.\<close>

theorem C3_division_by_zero_witness:
  "is_zero_value (VInt 0)
   \<and> (\<forall>rt. eval_node rt (BinOp (Constant (CInt 5)) Div (Constant (CInt 0)))
          = Inl (ZeroDivisionError ''division by zero''))"
proof (intro conjI allI)
  show "is_zero_value (VInt 0)" by simp
  fix rt
  show "eval_node rt (BinOp (Constant (CInt 5)) Div (Constant (CInt 0)))
      = Inl (ZeroDivisionError ''division by zero'')"
    using C3_division_by_zero [of rt "Constant (CInt 5)" "VInt 5" "Constant (CInt 0)" "VInt 0"]
    by simp
qed

subsection \<open>Boolean literals\<close>

text \<open>
  Claim C9. A \<^verbatim>\<open>bool\<close> constant passes \<^verbatim>\<open>isinstance(node.value, (int, float))\<close> and is
  returned as it is: \<^verbatim>\<open>safe_eval("True")\<close> is \<^verbatim>\<open>True\<close>, and \<^verbatim>\<open>True + True\<close> is the int 2.
\<close>

theorem C9_bool_literals:
  "eval_node rt (Constant (CBool b)) = Inr (VBool b)
   \<and> safe_eval rt ''True'' = Some (Inr (VBool True))
   \<and> safe_eval rt ''False'' = Some (Inr (VBool False))
   \<and> safe_eval rt ''True + True'' = Some (Inr (VInt 2))"
proof -
  have "safe_eval rt ''True'' = Some (Inr (VBool True))" by code_simp
  moreover have "safe_eval rt ''False'' = Some (Inr (VBool False))" by code_simp
  moreover have "safe_eval rt ''True + True'' = Some (Inr (VInt 2))" by code_simp
  ultimately show ?thesis by simp
qed

subsection \<open>Precedence\<close>

text \<open>
  Claim C7. For any operands \<open>a\<close>, \<open>b\<close>, \<open>c\<close> the parser groups \<^verbatim>\<open>a + b * c\<close> as
  \<^verbatim>\<open>a + (b * c)\<close> and \<^verbatim>\<open>a * b + c\<close> as \<^verbatim>\<open>(a * b) + c\<close> (additive below multiplicative),
  \<^verbatim>\<open>-a * b\<close> as \<^verbatim>\<open>(-a) * b\<close> (multiplicative below unary), \<^verbatim>\<open>-a ** b\<close> as \<^verbatim>\<open>-(a ** b)\<close>
  (unary below exponentiation), \<^verbatim>\<open>a ** b ** c\<close> as \<^verbatim>\<open>a ** (b ** c)\<close> (to the right), and a
  parenthesised sum as an operand (primary). So \<^verbatim>\<open>2 + 3 * 4\<close> is 14, \<^verbatim>\<open>(2 + 3) * 4\<close> is 20
  and \<^verbatim>\<open>2 ** 3 ** 2\<close> is 512.
\<close>

theorem C7_precedence:
  "shunt [TConst a, TOp Add, TConst b, TOp Mult, TConst c] True [] []
     = Some (Inr (BinOp (Constant a) Add (BinOp (Constant b) Mult (Constant c))))
   \<and> shunt [TConst a, TOp Mult, TConst b, TOp Add, TConst c] True [] []
     = Some (Inr (BinOp (BinOp (Constant a) Mult (Constant b)) Add (Constant c)))
   \<and> shunt [TOp Sub, TConst a, TOp Mult, TConst b] True [] []
     = Some (Inr (BinOp (UnaryOp USub (Constant a)) Mult (Constant b)))
   \<and> shunt [TOp Sub, TConst a, TOp PowOp, TConst b] True [] []
     = Some (Inr (UnaryOp USub (BinOp (Constant a) PowOp (Constant b))))
   \<and> shunt [TConst a, TOp PowOp, TConst b, TOp PowOp, TConst c] True [] []
     = Some (Inr (BinOp (Constant a) PowOp (BinOp (Constant b) PowOp (Constant c))))
   \<and> shunt [TLPar, TConst a, TOp Add, TConst b, TRPar, TOp Mult, TConst c] True [] []
     = Some (Inr (BinOp (BinOp (Constant a) Add (Constant b)) Mult (Constant c)))
   \<and> safe_eval rt ''2 + 3 * 4'' = Some (Inr (VInt 14))
   \<and> safe_eval rt ''(2 + 3) * 4'' = Some (Inr (VInt 20))
   \<and> safe_eval rt ''2 ** 3 ** 2'' = Some (Inr (VInt 512))"
proof -
  have "safe_eval rt ''2 + 3 * 4'' = Some (Inr (VInt 14))" by code_simp
  moreover have "safe_eval rt ''(2 + 3) * 4'' = Some (Inr (VInt 20))" by code_simp
  moreover have "safe_eval rt ''2 ** 3 ** 2'' = Some (Inr (VInt 512))" by code_simp
  ultimately show ?thesis by simp
qed

subsection \<open>Floor division\<close>




subsection \<open>Display\<close>

text \<open>
  Claim C8. When the evaluation succeeds with a float, what is shown depends on the value
  alone: a float with no fractional part (\<^verbatim>\<open>is_integer\<close>) is converted to the int of the
  same value and labelled \<^verbatim>\<open>int\<close>, any other float is shown as it is and labelled
  \<^verbatim>\<open>float\<close>. \<^verbatim>\<open>10 / 4\<close> shows 2.5 with type \<^verbatim>\<open>float\<close>, and \<^verbatim>\<open>10 / 5\<close> shows 2 with type
  \<^verbatim>\<open>int\<close>.
\<close>

theorem C8_display_normalisation:
  "(safe_eval rt (strip v) = Some (Inr (VFloat f)) \<and> strip v \<noteq> []
      \<longrightarrow> calculate_expression rt \<lparr>expression = Some v, out_el = Some el\<rparr>
          = Some \<lparr>expression = Some v,
                  out_el = Some \<lparr>inner = (if is_integer f then Result (VInt (int_of_float f)) ''int''
                                           else Result (VFloat f) ''float''),
                                  color = ''green''\<rparr>\<rparr>)
   \<and> (is_integer (Finite q) \<longleftrightarrow> q \<in> \<int>)
   \<and> (is_integer (Finite q) \<longrightarrow> of_int (int_of_float (Finite q)) = q)
   \<and> calculate_expression rt \<lparr>expression = Some ''10 / 4'', out_el = Some el\<rparr>
        = Some \<lparr>expression = Some ''10 / 4'',
                out_el = Some \<lparr>inner = Result (VFloat (Finite (5 / 2))) ''float'',
                                color = ''green''\<rparr>\<rparr>
   \<and> calculate_expression rt \<lparr>expression = Some ''10 / 5'', out_el = Some el\<rparr>
        = Some \<lparr>expression = Some ''10 / 5'',
                out_el = Some \<lparr>inner = Result (VInt 2) ''int'', color = ''green''\<rparr>\<rparr>"
proof (intro conjI impI)
  assume "safe_eval rt (strip v) = Some (Inr (VFloat f)) \<and> strip v \<noteq> []"
  then show "calculate_expression rt \<lparr>expression = Some v, out_el = Some el\<rparr>
          = Some \<lparr>expression = Some v,
                  out_el = Some \<lparr>inner = (if is_integer f then Result (VInt (int_of_float f)) ''int''
                                           else Result (VFloat f) ''float''),
                                  color = ''green''\<rparr>\<rparr>"
    by (simp add: calculate_expression_def normalize_result_def Let_def)
next
  show "is_integer (Finite q) \<longleftrightarrow> q \<in> \<int>"
    by (metis Ints_cases Ints_of_int floor_of_int is_integer.simps(1))
next
  assume "is_integer (Finite q)"
  then have "of_int \<lfloor>q\<rfloor> = q" by simp
  moreover have "\<lceil>q\<rceil> = \<lfloor>q\<rfloor>" using calculation by (metis ceiling_of_int floor_of_int)
  ultimately show "of_int (int_of_float (Finite q)) = q" by (simp add: trunc_def)
next
  have s4: "strip ''10 / 4'' = ''10 / 4''" by code_simp
  have "safe_eval rt ''10 / 4'' = Some (Inr (VFloat (Finite (5 / 2))))" by code_simp
  moreover have "\<not> is_integer (Finite (5 / 2))" by code_simp
  ultimately show "calculate_expression rt \<lparr>expression = Some ''10 / 4'', out_el = Some el\<rparr>
        = Some \<lparr>expression = Some ''10 / 4'',
                out_el = Some \<lparr>inner = Result (VFloat (Finite (5 / 2))) ''float'',
                                color = ''green''\<rparr>\<rparr>"
    using s4 by (simp add: calculate_expression_def normalize_result_def Let_def)
next
  have s5: "strip ''10 / 5'' = ''10 / 5''" by code_simp
  have "safe_eval rt ''10 / 5'' = Some (Inr (VFloat (Finite 2)))" by code_simp
  moreover have "is_integer (Finite 2)" by code_simp
  moreover have "int_of_float (Finite 2) = 2" by code_simp
  ultimately show "calculate_expression rt \<lparr>expression = Some ''10 / 5'', out_el = Some el\<rparr>
        = Some \<lparr>expression = Some ''10 / 5'',
                out_el = Some \<lparr>inner = Result (VInt 2) ''int'', color = ''green''\<rparr>\<rparr>"
    using s5 by (simp add: calculate_expression_def normalize_result_def Let_def)
qed

text \<open>The theorem at the input \<^verbatim>\<open>9 / 3\<close>, whose float result 3.0 is shown as the int 3.\<close>

theorem C8_display_normalisation_witness:
  "\<forall>rt el. calculate_expression rt \<lparr>expression = Some '' 9 / 3 '', out_el = Some el\<rparr>
        = Some \<lparr>expression = Some '' 9 / 3 '',
                out_el = Some \<lparr>inner = Result (VInt 3) ''int'', color = ''green''\<rparr>\<rparr>"
proof (intro allI)
  fix rt el
  have "strip '' 9 / 3 '' = ''9 / 3''" by code_simp
  moreover have "safe_eval rt ''9 / 3'' = Some (Inr (VFloat (Finite 3)))" by code_simp
  moreover have "is_integer (Finite 3)" by code_simp
  moreover have "int_of_float (Finite 3) = 3" by code_simp
  ultimately show "calculate_expression rt \<lparr>expression = Some '' 9 / 3 '', out_el = Some el\<rparr>
        = Some \<lparr>expression = Some '' 9 / 3 '',
                out_el = Some \<lparr>inner = Result (VInt 3) ''int'', color = ''green''\<rparr>\<rparr>"
    using C8_display_normalisation [of rt "'' 9 / 3 ''" "Finite 3" el]
    by simp
qed

subsection \<open>Modulo and floor division by zero\<close>

lemma float_of_int_overflow:
  "2 ^ 1024 \<le> (of_int n :: rat) \<Longrightarrow>
     float_of_int n = Inl (OverflowError ''int too large to convert to float'')"
  by (simp add: float_of_int_def round64_overflow)

lemma py_mod_complex:
  "is_complex a \<or> is_complex b \<Longrightarrow> py_mod a b = Inl (unsupported_operand ''%'' a b)"
  by (simp add: py_mod_def)

lemma py_floordiv_complex:
  "is_complex a \<or> is_complex b \<Longrightarrow> py_floordiv a b = Inl (unsupported_operand ''//'' a b)"
  by (simp add: py_floordiv_def)

lemma as_float_zero_value:
  "is_zero_value b \<Longrightarrow> \<not> is_complex b \<Longrightarrow> \<exists>g. as_float b = Inr g \<and> is_zero g"
  by (cases b) (auto simp: float_of_int_zero)

lemma as_float_cases:
  "\<not> is_complex a \<Longrightarrow>
     (as_int a \<noteq> None \<and> as_float a = Inl (OverflowError ''int too large to convert to float''))
     \<or> (\<exists>f. as_float a = Inr f)"
  using float_of_int_cases by (cases a) auto

text \<open>
  Claim C10, as amended. When both operands of \<^verbatim>\<open>%\<close> or \<^verbatim>\<open>//\<close> evaluate and the right one
  is zero, the operation raises and returns no value: \<^verbatim>\<open>ZeroDivisionError\<close> for two ints
  (or bools) and for real operands of which one is a float, except that an int left
  operand too large for a float raises \<^verbatim>\<open>OverflowError\<close> in the conversion; and
  \<^verbatim>\<open>TypeError\<close> when an operand is complex, which has neither operator.
\<close>

theorem C10_mod_floordiv_by_zero:
  assumes "eval_node rt l = Inr a" and "eval_node rt r = Inr b" and "is_zero_value b"
    and "opr = Mod \<or> opr = FloorDiv"
  shows "(as_int a \<noteq> None \<and> as_int b \<noteq> None
            \<and> (\<exists>m. eval_node rt (BinOp l opr r) = Inl (ZeroDivisionError m)))
       \<or> ((as_int a = None \<or> as_int b = None) \<and> \<not> is_complex a \<and> \<not> is_complex b
            \<and> ((\<exists>m. eval_node rt (BinOp l opr r) = Inl (ZeroDivisionError m))
                \<or> as_int a \<noteq> None
                  \<and> eval_node rt (BinOp l opr r)
                      = Inl (OverflowError ''int too large to convert to float'')))
       \<or> ((is_complex a \<or> is_complex b)
            \<and> (\<exists>m. eval_node rt (BinOp l opr r) = Inl (TypeError m)))"
proof (cases "is_complex a \<or> is_complex b")
  case True
  then have "py_mod a b = Inl (unsupported_operand ''%'' a b)"
    and "py_floordiv a b = Inl (unsupported_operand ''//'' a b)"
    by (simp_all add: py_mod_complex py_floordiv_complex)
  then show ?thesis
    using True assms by (auto simp: unsupported_operand_def)
next
  case False
  then have nc: "\<not> is_complex a" "\<not> is_complex b" by simp_all
  show ?thesis
  proof (cases "as_int a \<noteq> None \<and> as_int b \<noteq> None")
    case True
    then obtain x y where xy: "as_int a = Some x" "as_int b = Some y" by auto
    with assms(3) have "y = 0" by (cases b) (auto split: if_splits)
    with xy nc assms show ?thesis
      by (auto simp: py_mod_def py_floordiv_def binary_op_def)
  next
    case ni: False
    from as_float_zero_value [OF assms(3) nc(2)]
    obtain g where g: "as_float b = Inr g" "is_zero g" by auto
    from as_float_cases [OF nc(1)] show ?thesis
    proof
      assume ov: "as_int a \<noteq> None
        \<and> as_float a = Inl (OverflowError ''int too large to convert to float'')"
      with ni have "as_int b = None" by simp
      with ov nc assms show ?thesis
        by (auto simp: py_mod_def py_floordiv_def binary_op_def split: option.splits)
    next
      assume "\<exists>f. as_float a = Inr f"
      then obtain f where f: "as_float a = Inr f" ..
      from ni nc f g have "py_mod a b = float_rem f g" "py_floordiv a b = float_floor_div f g"
        by (auto simp: py_mod_def py_floordiv_def binary_op_def split: option.splits)
      with g(2) have "py_mod a b = Inl (ZeroDivisionError ''float modulo'')"
        and "py_floordiv a b = Inl (ZeroDivisionError ''float floor division by zero'')"
        by (simp_all add: float_rem_def float_floor_div_def)
      with ni nc assms show ?thesis by auto
    qed
  qed
qed

text \<open>The theorem at \<^verbatim>\<open>7 % 0\<close> and \<^verbatim>\<open>7 // 0\<close>.\<close>

theorem C10_mod_floordiv_by_zero_witness:
  "\<forall>rt. (\<exists>m. eval_node rt (BinOp (Constant (CInt 7)) Mod (Constant (CInt 0)))
            = Inl (ZeroDivisionError m))
       \<and> (\<exists>m. eval_node rt (BinOp (Constant (CInt 7)) FloorDiv (Constant (CInt 0)))
            = Inl (ZeroDivisionError m))"
proof (intro allI conjI)
  fix rt
  show "\<exists>m. eval_node rt (BinOp (Constant (CInt 7)) Mod (Constant (CInt 0)))
            = Inl (ZeroDivisionError m)"
    using C10_mod_floordiv_by_zero [of rt "Constant (CInt 7)" "VInt 7" "Constant (CInt 0)"
        "VInt 0" Mod]
    by simp
  show "\<exists>m. eval_node rt (BinOp (Constant (CInt 7)) FloorDiv (Constant (CInt 0)))
            = Inl (ZeroDivisionError m)"
    using C10_mod_floordiv_by_zero [of rt "Constant (CInt 7)" "VInt 7" "Constant (CInt 0)"
        "VInt 0" FloorDiv]
    by simp
qed

text \<open>
  Claim C10 as stated fails at \<^verbatim>\<open>10 ** 400 % 0.0\<close>: the right operand is zero, and the
  exception is the \<^verbatim>\<open>OverflowError\<close> of converting the left operand, not a zero-division
  error. It fails for a complex left operand too, where the exception is a \<^verbatim>\<open>TypeError\<close>.
\<close>

theorem C10_other_error_counterexample:
  "(\<forall>rt. eval_node rt (BinOp (BinOp (Constant (CInt 10)) PowOp (Constant (CInt 400))) Mod
              (Constant (CFloat (Finite 0))))
          = Inl (OverflowError ''int too large to convert to float''))
   \<and> (\<forall>c. py_mod (VComplex c) (VInt 0) = Inl (unsupported_operand ''%'' (VComplex c) (VInt 0)))"
proof (intro conjI allI)
  fix rt
  have "(2::rat) ^ 1024 \<le> of_int (10 ^ 400)" by simp
  then have "float_of_int (10 ^ 400) = Inl (OverflowError ''int too large to convert to float'')"
    by (rule float_of_int_overflow)
  then show "eval_node rt (BinOp (BinOp (Constant (CInt 10)) PowOp (Constant (CInt 400))) Mod
              (Constant (CFloat (Finite 0))))
          = Inl (OverflowError ''int too large to convert to float'')"
    by (simp add: py_pow_def py_mod_def binary_op_def int_pow_def)
next
  fix c
  show "py_mod (VComplex c) (VInt 0) = Inl (unsupported_operand ''%'' (VComplex c) (VInt 0))"
    by (simp add: py_mod_def)
qed

subsection \<open>Powers of negative numbers\<close>




subsection \<open>Plain arithmetic\<close>















subsection \<open>Modulo\<close>

lemma round_half_even_nonneg: "0 \<le> x \<Longrightarrow> 0 \<le> round_half_even x"
  by (simp add: round_half_even_def Let_def)

lemma round_half_even_nonpos:
  assumes "x \<le> 0"
  shows "round_half_even x \<le> 0"
proof (cases "x = 0")
  case True
  then show ?thesis by (simp add: round_half_even_def Let_def)
next
  case False
  with assms have "x < 0" by simp
  then have "\<lfloor>x\<rfloor> < 0" by (simp add: floor_less_iff)
  then show ?thesis by (simp add: round_half_even_def Let_def)
qed

lemma round64_sign:
  assumes "q \<noteq> 0"
  shows "sign_bit (round64 q) = (q < 0)"
proof -
  define u :: rat where "u = 2 powi (max (ilog2 q) (- 1022) - 52)"
  define m where "m = round_half_even (q / u)"
  have upos: "0 < u" by (simp add: u_def power_int_def)
  have r64: "round64 q =
      (if 2 ^ 1024 \<le> \<bar>of_int m * u\<bar> then (if 0 < q then PosInf else NegInf)
       else if of_int m * u = 0 then (if 0 < q then Finite 0 else NegZero)
       else Finite (of_int m * u))"
    using assms unfolding round64_def Let_def m_def u_def by (simp only: if_False)
  show ?thesis
  proof (cases "0 < q")
    case True
    then have "0 \<le> q / u" using upos by simp
    then have "0 \<le> m" unfolding m_def by (rule round_half_even_nonneg)
    then have "0 \<le> (of_int m :: rat) * u" using upos by simp
    then have "\<not> (of_int m :: rat) * u < 0" by simp
    with True show ?thesis unfolding r64 by (simp del: of_int_mult)
  next
    case False
    with assms have neg: "q < 0" by simp
    then have "q / u \<le> 0" using upos by (simp add: divide_le_0_iff)
    then have "m \<le> 0" unfolding m_def by (rule round_half_even_nonpos)
    then have le: "(of_int m :: rat) * u \<le> 0" using upos by (simp add: mult_le_0_iff)
    have "of_int m * u \<noteq> 0 \<Longrightarrow> (of_int m :: rat) * u < 0"
      by (rule order.not_eq_order_implies_strict [OF _ le])
    with neg show ?thesis unfolding r64 by (auto simp del: of_int_mult)
  qed
qed

lemma float_rem_finite:
  assumes "q \<noteq> 0" and "fin_val vx = Some p"
  shows "\<exists>f. float_rem vx (Finite q) = Inr (VFloat f) \<and> sign_bit f = (q < 0)
           \<and> (fin_val f = Some (p - of_int \<lfloor>p / q\<rfloor> * q)
               \<or> f = round64 (p - of_int \<lfloor>p / q\<rfloor> * q))"
proof -
  define z where "z = p / q"
  define m where "m = p - of_int \<lfloor>z\<rfloor> * q"
  have pz: "p = q * z" using assms(1) by (simp add: z_def)
  show ?thesis
  proof (cases "p = 0")
    case True
    with assms(2) have "is_zero vx" by (cases vx) auto
    moreover from assms(2) have "\<not> is_nan vx" "\<not> is_inf vx" by (cases vx; simp)+
    ultimately have "float_rem vx (Finite q) = Inr (VFloat (signed_zero (q < 0)))"
      using assms(1) by (simp add: float_rem_def fl_fmod_def Let_def)
    with True show ?thesis by (auto simp: signed_zero_def)
  next
    case False
    with assms(2) have vx: "vx = Finite p" by (cases vx) auto
    define r where "r = p - q * of_int (trunc z)"
    have fm: "fl_fmod vx (Finite q) = (if r = 0 then signed_zero (p < 0) else Finite r)"
      using False assms(1) by (simp add: vx fl_fmod_def Let_def r_def z_def)
    show ?thesis
    proof (cases "r = 0")
      case True
      then have "z = of_int (trunc z)" using assms(1) by (simp add: r_def pz)
      then have "of_int \<lfloor>z\<rfloor> = z" by (metis floor_of_int)
      then have "m = p - z * q" unfolding m_def by (simp only:)
      then have "m = 0" by (simp add: pz)
      moreover have "float_rem vx (Finite q) = Inr (VFloat (signed_zero (q < 0)))"
        using True assms(1) fm by (simp add: float_rem_def Let_def signed_zero_def)
      ultimately show ?thesis unfolding m_def z_def by (auto simp: signed_zero_def)
    next
      case rn: False
      with fm have fm': "fl_fmod vx (Finite q) = Finite r" by simp
      show ?thesis
      proof (cases "0 \<le> z")
        case True
        then have rm: "r = m" by (simp add: r_def m_def trunc_def)
        have req: "r = q * (z - of_int \<lfloor>z\<rfloor>)" by (simp add: rm m_def pz algebra_simps)
        with rn have "z - of_int \<lfloor>z\<rfloor> \<noteq> 0" by auto
        moreover have "of_int \<lfloor>z\<rfloor> \<le> z" by (rule of_int_floor_le)
        ultimately have fpos: "0 < z - of_int \<lfloor>z\<rfloor>" by linarith
        have sg: "(r < 0) = (q < 0)"
          unfolding req using fpos assms(1) by (auto simp: mult_less_0_iff)
        then have "float_rem vx (Finite q) = Inr (VFloat (Finite r))"
          using rn assms(1) fm' by (simp add: float_rem_def Let_def)
        with sg rm show ?thesis unfolding m_def z_def by simp
      next
        case False
        then have tr: "trunc z = \<lceil>z\<rceil>" by (simp add: trunc_def)
        have rq: "r = q * (z - of_int \<lceil>z\<rceil>)" by (simp add: r_def tr pz algebra_simps)
        from rq rn have "z - of_int \<lceil>z\<rceil> \<noteq> 0" by auto
        moreover have "z \<le> of_int \<lceil>z\<rceil>" by (rule le_of_int_ceiling)
        ultimately have lt: "z - of_int \<lceil>z\<rceil> < 0" by linarith
        have nz: "z \<noteq> of_int \<lfloor>z\<rfloor>"
        proof
          assume e: "z = of_int \<lfloor>z\<rfloor>"
          then have "\<lceil>z\<rceil> = \<lfloor>z\<rfloor>" by (metis ceiling_of_int)
          with e lt show False by simp
        qed
        then have cf: "\<lceil>z\<rceil> = \<lfloor>z\<rfloor> + 1" by (simp add: ceiling_altdef)
        have "of_int \<lfloor>z\<rfloor> < z" using nz of_int_floor_le [of z] by linarith
        then have gt: "- 1 < z - of_int \<lceil>z\<rceil>" by (simp add: cf)
        have sg: "(r < 0) = (\<not> q < 0)"
          unfolding rq using lt assms(1) by (auto simp: mult_less_0_iff)
        have mq: "m = r + q" by (simp add: m_def rq cf pz algebra_simps)
        have mt: "m = q * (z - of_int \<lceil>z\<rceil> + 1)" by (simp add: mq rq algebra_simps)
        have tpos: "0 < z - of_int \<lceil>z\<rceil> + 1" using gt by simp
        from mt tpos assms(1) have m0: "m \<noteq> 0" by simp
        from mt tpos assms(1) have msg: "(m < 0) = (q < 0)" by (simp add: mult_less_0_iff)
        have "fl_add (Finite r) (Finite q) = round64 (r + q)"
          using rn assms(1) by (simp add: fl_add_def)
        then have "float_rem vx (Finite q) = Inr (VFloat (round64 m))"
          using rn assms(1) fm' sg by (simp add: float_rem_def Let_def mq)
        moreover have "sign_bit (round64 m) = (q < 0)" using round64_sign [OF m0] msg by simp
        ultimately show ?thesis unfolding m_def z_def by simp
      qed
    qed
  qed
qed

text \<open>
  Claim C5. For int (or bool) operands with a nonzero divisor, \<^verbatim>\<open>a % b\<close> is exactly
  \<open>a - \<lfloor>a / b\<rfloor> * b\<close>, which lies between 0 and \<open>b\<close> on the side of \<open>b\<close>. For real operands
  of which one is a float, with finite values and a nonzero divisor, the result is a float
  with the sign of the divisor, and it is \<open>a - \<lfloor>a / b\<rfloor> * b\<close> computed on the exact values
  of the operands: exactly that number when the C remainder already has the divisor's
  sign, and that number rounded to the nearest double otherwise. So \<^verbatim>\<open>-7 % 2\<close> is 1 and
  \<^verbatim>\<open>7 % -2\<close> is -1, where the truncating remainder would be -1 and 1.
\<close>

theorem C5_modulo:
  "(eval_node rt l = Inr a \<and> eval_node rt r = Inr b \<and> as_int a = Some x \<and> as_int b = Some y
      \<and> y \<noteq> 0
      \<longrightarrow> eval_node rt (BinOp l Mod r) = Inr (VInt (x - \<lfloor>(of_int x :: rat) / of_int y\<rfloor> * y))
        \<and> (0 < y \<longrightarrow> 0 \<le> x - \<lfloor>(of_int x :: rat) / of_int y\<rfloor> * y
                     \<and> x - \<lfloor>(of_int x :: rat) / of_int y\<rfloor> * y < y)
        \<and> (y < 0 \<longrightarrow> y < x - \<lfloor>(of_int x :: rat) / of_int y\<rfloor> * y
                     \<and> x - \<lfloor>(of_int x :: rat) / of_int y\<rfloor> * y \<le> 0))
   \<and> (eval_node rt l = Inr a \<and> eval_node rt r = Inr b \<and> (as_int a = None \<or> as_int b = None)
      \<and> as_float a = Inr vx \<and> as_float b = Inr (Finite q) \<and> fin_val vx = Some p \<and> q \<noteq> 0
      \<longrightarrow> (\<exists>f. eval_node rt (BinOp l Mod r) = Inr (VFloat f) \<and> sign_bit f = (q < 0)
             \<and> (fin_val f = Some (p - of_int \<lfloor>p / q\<rfloor> * q)
                 \<or> f = round64 (p - of_int \<lfloor>p / q\<rfloor> * q))))
   \<and> safe_eval rt ''-7 % 2'' = Some (Inr (VInt 1))
   \<and> safe_eval rt ''7 % -2'' = Some (Inr (VInt (- 1)))"
proof (intro conjI impI)
  assume h: "eval_node rt l = Inr a \<and> eval_node rt r = Inr b \<and> as_int a = Some x
      \<and> as_int b = Some y \<and> y \<noteq> 0"
  have m: "x - \<lfloor>(of_int x :: rat) / of_int y\<rfloor> * y = x mod y"
    by (simp only: floor_divide_of_int_eq minus_div_mult_eq_mod)
  from h have "\<not> is_complex a" by (cases a) simp_all
  moreover from h have "\<not> is_complex b" by (cases b) simp_all
  ultimately have "py_mod a b = Inr (VInt (x mod y))"
    using h by (simp add: py_mod_def binary_op_def)
  with h show "eval_node rt (BinOp l Mod r)
      = Inr (VInt (x - \<lfloor>(of_int x :: rat) / of_int y\<rfloor> * y))"
    by (simp only: m) simp
  show "0 \<le> x - \<lfloor>(of_int x :: rat) / of_int y\<rfloor> * y" if "0 < y"
    using that by (simp only: m) simp
  show "x - \<lfloor>(of_int x :: rat) / of_int y\<rfloor> * y < y" if "0 < y"
    using that by (simp only: m) simp
  show "y < x - \<lfloor>(of_int x :: rat) / of_int y\<rfloor> * y" if "y < 0"
    using that by (simp only: m) simp
  show "x - \<lfloor>(of_int x :: rat) / of_int y\<rfloor> * y \<le> 0" if "y < 0"
    using that by (simp only: m) simp
next
  assume h: "eval_node rt l = Inr a \<and> eval_node rt r = Inr b \<and> (as_int a = None \<or> as_int b = None)
      \<and> as_float a = Inr vx \<and> as_float b = Inr (Finite q) \<and> fin_val vx = Some p \<and> q \<noteq> 0"
  from h have "\<not> is_complex a" by (cases a) simp_all
  moreover from h have "\<not> is_complex b" by (cases b) simp_all
  ultimately have "py_mod a b = float_rem vx (Finite q)"
    using h by (auto simp: py_mod_def binary_op_def split: option.splits)
  with h have "eval_node rt (BinOp l Mod r) = float_rem vx (Finite q)" by simp
  moreover from h have "q \<noteq> 0" "fin_val vx = Some p" by simp_all
  ultimately show "\<exists>f. eval_node rt (BinOp l Mod r) = Inr (VFloat f) \<and> sign_bit f = (q < 0)
             \<and> (fin_val f = Some (p - of_int \<lfloor>p / q\<rfloor> * q)
                 \<or> f = round64 (p - of_int \<lfloor>p / q\<rfloor> * q))"
    using float_rem_finite [of q vx p] by simp
next
  show "safe_eval rt ''-7 % 2'' = Some (Inr (VInt 1))" by code_simp
  show "safe_eval rt ''7 % -2'' = Some (Inr (VInt (- 1)))" by code_simp
qed

text \<open>The theorem at \<^verbatim>\<open>-7 % 2\<close> and at \<^verbatim>\<open>7.5 % -2\<close>, whose result is negative.\<close>

theorem C5_modulo_witness:
  "\<forall>rt. eval_node rt (BinOp (UnaryOp USub (Constant (CInt 7))) Mod (Constant (CInt 2)))
          = Inr (VInt 1)
       \<and> (\<exists>f. eval_node rt (BinOp (Constant (CFloat (Finite (15 / 2)))) Mod
                  (UnaryOp USub (Constant (CInt 2)))) = Inr (VFloat f) \<and> sign_bit f)"
proof (intro allI conjI)
  fix rt
  have "- 7 - \<lfloor>(of_int (- 7) :: rat) / of_int 2\<rfloor> * 2 = (1::int)"
    by (simp only: floor_divide_of_int_eq minus_div_mult_eq_mod) simp
  then show "eval_node rt (BinOp (UnaryOp USub (Constant (CInt 7))) Mod (Constant (CInt 2)))
          = Inr (VInt 1)"
    using C5_modulo [of rt "UnaryOp USub (Constant (CInt 7))" "VInt (- 7)"
        "Constant (CInt 2)" "VInt 2" "- 7" 2]
    by simp
  have "as_float (VInt (- 2)) = Inr (Finite (- 2))" by code_simp
  then show "\<exists>f. eval_node rt (BinOp (Constant (CFloat (Finite (15 / 2)))) Mod
                  (UnaryOp USub (Constant (CInt 2)))) = Inr (VFloat f) \<and> sign_bit f"
    using C5_modulo [of rt "Constant (CFloat (Finite (15 / 2)))" "VFloat (Finite (15 / 2))"
        "UnaryOp USub (Constant (CInt 2))" "VInt (- 2)" _ _ "Finite (15 / 2)" "- 2" "15 / 2"]
    by auto
qed

end
